theory Spec2Isabelle
  imports Complex_Main "HOL-Library.AList"
begin

section \<open>Request states and error taxonomy (core/stateMachine.ts, core/errors.ts)\<close>

text \<open>
  The request lifecycle states of \<^verbatim>\<open>core/stateMachine.ts\<close>. What the platform and user
  code throw (\<^verbatim>\<open>fetch\<close>, the methods of a \<^verbatim>\<open>Response\<close>, a validator) is a \<open>js_error\<close>:
  the engine tells a \<^verbatim>\<open>TypeError\<close> and an \<^verbatim>\<open>Error\<close> named \<^verbatim>\<open>AbortError\<close> from
  anything else. The error classes of \<^verbatim>\<open>core/errors.ts\<close> are the engine's own; \<open>Thrown\<close>
  is a platform error passing through the engine. The second field of
  \<open>ResponseValidationError\<close> is \<^verbatim>\<open>validationErrors\<close>, the error the validator threw.
\<close>

datatype RequestState = IDLE | PENDING | RETRYING | SUCCESS | ERROR | CANCELLED

datatype js_error = TypeError string | AbortError | OtherError string

datatype exn =
    NetworkError string
  | TimeoutError int
  | RetryExhaustedError int "exn option"
  | CircuitOpenError
  | ResponseValidationError string js_error
  | IntegrityViolationError string
  | DeterministicStateError RequestState RequestState
  | Thrown js_error

section \<open>Circuit breaker (resilience/circuitBreaker.ts)\<close>

datatype CircuitState = CLOSED | OPEN | HALF_OPEN

record CircuitBreakerConfig =
  failureThreshold :: int
  resetTimeoutMs :: int
  halfOpenMaxCalls :: int

record PartialCircuitBreakerConfig =
  p_failureThreshold :: "int option"
  p_resetTimeoutMs :: "int option"
  p_halfOpenMaxCalls :: "int option"

definition DEFAULT_CIRCUIT_BREAKER_CONFIG :: CircuitBreakerConfig where
  "DEFAULT_CIRCUIT_BREAKER_CONFIG =
     \<lparr>failureThreshold = 5, resetTimeoutMs = 60000, halfOpenMaxCalls = 1\<rparr>"

text \<open>
  The fields of the class. \<^verbatim>\<open>failures\<close> and \<^verbatim>\<open>halfOpenCalls\<close> start at 0 and are only
  ever incremented or reset to 0, so they are naturals; \<^verbatim>\<open>lastOpenedAt\<close> holds a reading
  of \<^verbatim>\<open>Date.now()\<close> (milliseconds).
\<close>

record CircuitBreaker =
  cb_state :: CircuitState
  failures :: nat
  halfOpenCalls :: nat
  lastOpenedAt :: int
  cb_config :: CircuitBreakerConfig

definition spread_breaker_config ::
  "CircuitBreakerConfig \<Rightarrow> PartialCircuitBreakerConfig \<Rightarrow> CircuitBreakerConfig" where
  "spread_breaker_config d p =
     \<lparr>failureThreshold = (case p_failureThreshold p of None \<Rightarrow> failureThreshold d | Some v \<Rightarrow> v),
      resetTimeoutMs = (case p_resetTimeoutMs p of None \<Rightarrow> resetTimeoutMs d | Some v \<Rightarrow> v),
      halfOpenMaxCalls = (case p_halfOpenMaxCalls p of None \<Rightarrow> halfOpenMaxCalls d | Some v \<Rightarrow> v)\<rparr>"

definition new_CircuitBreaker :: "PartialCircuitBreakerConfig option \<Rightarrow> CircuitBreaker" where
  "new_CircuitBreaker config =
     \<lparr>cb_state = CLOSED, failures = 0, halfOpenCalls = 0, lastOpenedAt = 0,
      cb_config = (case config of
          None \<Rightarrow> DEFAULT_CIRCUIT_BREAKER_CONFIG
        | Some p \<Rightarrow> spread_breaker_config DEFAULT_CIRCUIT_BREAKER_CONFIG p)\<rparr>"

text \<open>
  \<^verbatim>\<open>check()\<close>: the argument \<open>now\<close> is the value \<^verbatim>\<open>Date.now()\<close> returns. A throw keeps the
  mutations made before it, so the breaker is returned next to the result. The two
  \<^verbatim>\<open>if\<close> statements of the source run one after the other: \<open>b1\<close> is the breaker
  after the first.
\<close>

definition check :: "int \<Rightarrow> CircuitBreaker \<Rightarrow> (exn + unit) \<times> CircuitBreaker" where
  "check now b =
     (case (if cb_state b = OPEN
            then (if now - lastOpenedAt b \<ge> resetTimeoutMs (cb_config b)
                  then Inr (b\<lparr>cb_state := HALF_OPEN, halfOpenCalls := 0\<rparr>)
                  else Inl CircuitOpenError)
            else Inr b) of
        Inl e \<Rightarrow> (Inl e, b)
      | Inr b1 \<Rightarrow>
          if cb_state b1 = HALF_OPEN
          then (if int (halfOpenCalls b1) \<ge> halfOpenMaxCalls (cb_config b1)
                then (Inl CircuitOpenError, b1)
                else (Inr (), b1\<lparr>halfOpenCalls := halfOpenCalls b1 + 1\<rparr>))
          else (Inr (), b1))"

definition recordSuccess :: "CircuitBreaker \<Rightarrow> CircuitBreaker" where
  "recordSuccess b =
     (if cb_state b = HALF_OPEN then b\<lparr>cb_state := CLOSED, failures := 0\<rparr>
      else if cb_state b = CLOSED then b\<lparr>failures := 0\<rparr>
      else b)"

definition recordFailure :: "int \<Rightarrow> CircuitBreaker \<Rightarrow> CircuitBreaker" where
  "recordFailure now b =
     (let b1 = b\<lparr>failures := failures b + 1\<rparr>
      in if cb_state b1 = HALF_OPEN then b1\<lparr>cb_state := OPEN, lastOpenedAt := now\<rparr>
         else if int (failures b1) \<ge> failureThreshold (cb_config b1)
              then b1\<lparr>cb_state := OPEN, lastOpenedAt := now\<rparr>
         else b1)"

text \<open>Consecutive \<^verbatim>\<open>recordFailure()\<close> calls, one per clock reading of the list.\<close>

fun recordFailures :: "int list \<Rightarrow> CircuitBreaker \<Rightarrow> CircuitBreaker" where
  "recordFailures [] b = b"
| "recordFailures (t # ts) b = recordFailures ts (recordFailure t b)"


section \<open>State machine (core/stateMachine.ts)\<close>

fun ALLOWED_TRANSITIONS :: "RequestState \<Rightarrow> RequestState list" where
  "ALLOWED_TRANSITIONS IDLE = [PENDING, CANCELLED]"
| "ALLOWED_TRANSITIONS PENDING = [SUCCESS, ERROR, RETRYING, CANCELLED]"
| "ALLOWED_TRANSITIONS RETRYING = [PENDING, SUCCESS, ERROR, CANCELLED]"
| "ALLOWED_TRANSITIONS SUCCESS = []"
| "ALLOWED_TRANSITIONS ERROR = []"
| "ALLOWED_TRANSITIONS CANCELLED = []"

definition transition :: "RequestState \<Rightarrow> RequestState \<Rightarrow> exn + RequestState" where
  "transition cur next =
     (if \<not> List.member (ALLOWED_TRANSITIONS cur) next
      then Inl (DeterministicStateError cur next)
      else Inr next)"

definition isTerminal :: "RequestState \<Rightarrow> bool" where
  "isTerminal s = List.member [SUCCESS, ERROR, CANCELLED] s"

section \<open>Retry and backoff (resilience/retry.ts)\<close>

text \<open>
  JavaScript numbers are modelled as reals where they are delays and as integers where
  they are attempt numbers and status codes. A custom strategy is the user's function.
\<close>

datatype RetryStrategy = Fixed | Exponential | Linear | Custom "int \<Rightarrow> real \<Rightarrow> real"

datatype RetryCondition = Network | FiveXX | StatusCode int

record RetryConfig =
  enabled :: bool
  maxAttempts :: int
  strategy :: RetryStrategy
  baseDelayMs :: real
  maxDelayMs :: real
  jitter :: bool
  retryOn :: "RetryCondition list"

record PartialRetryConfig =
  p_enabled :: "bool option"
  p_maxAttempts :: "int option"
  p_strategy :: "RetryStrategy option"
  p_baseDelayMs :: "real option"
  p_maxDelayMs :: "real option"
  p_jitter :: "bool option"
  p_retryOn :: "RetryCondition list option"

definition DEFAULT_RETRY_CONFIG :: RetryConfig where
  "DEFAULT_RETRY_CONFIG =
     \<lparr>enabled = True, maxAttempts = 3, strategy = Exponential, baseDelayMs = 100,
      maxDelayMs = 30000, jitter = True, retryOn = [Network, FiveXX]\<rparr>"

definition spread_retry_config :: "RetryConfig \<Rightarrow> PartialRetryConfig \<Rightarrow> RetryConfig" where
  "spread_retry_config d p =
     \<lparr>enabled = (case p_enabled p of None \<Rightarrow> enabled d | Some v \<Rightarrow> v),
      maxAttempts = (case p_maxAttempts p of None \<Rightarrow> maxAttempts d | Some v \<Rightarrow> v),
      strategy = (case p_strategy p of None \<Rightarrow> strategy d | Some v \<Rightarrow> v),
      baseDelayMs = (case p_baseDelayMs p of None \<Rightarrow> baseDelayMs d | Some v \<Rightarrow> v),
      maxDelayMs = (case p_maxDelayMs p of None \<Rightarrow> maxDelayMs d | Some v \<Rightarrow> v),
      jitter = (case p_jitter p of None \<Rightarrow> jitter d | Some v \<Rightarrow> v),
      retryOn = (case p_retryOn p of None \<Rightarrow> retryOn d | Some v \<Rightarrow> v)\<rparr>"

text \<open>
  \<^verbatim>\<open>computeDelay\<close>: \<open>rnd\<close> is the value \<^verbatim>\<open>Math.random()\<close> returns (read only when
  \<^verbatim>\<open>jitter\<close> is set), a number in \<open>[0, 1)\<close>. \<^verbatim>\<open>Math.pow(2, attempt - 1)\<close> is the integer
  power \<^const>\<open>power_int\<close>, which is \<open>1 / 2 ^ k\<close> for a negative exponent \<open>- k\<close>.
  The source computes in IEEE doubles and the model in exact reals: every product and
  sum of the source is rounded to the nearest double. In particular the factor
  \<open>0.5 + rnd * 0.5\<close> of the source is 1 at the largest value of \<^verbatim>\<open>Math.random()\<close>, which
  the model reaches at \<open>rnd = 1\<close> only; statements about the factor therefore let
  \<open>rnd\<close> range over the closed interval \<open>[0, 1]\<close>.
\<close>

definition computeDelay :: "RetryStrategy \<Rightarrow> int \<Rightarrow> real \<Rightarrow> real \<Rightarrow> bool \<Rightarrow> real \<Rightarrow> int" where
  "computeDelay strat attempt baseDelay maxDelay jit rnd =
     (let delay = (case strat of
                     Custom f \<Rightarrow> f attempt baseDelay
                   | Fixed \<Rightarrow> baseDelay
                   | Linear \<Rightarrow> baseDelay * of_int attempt
                   | Exponential \<Rightarrow> baseDelay * power_int 2 (attempt - 1));
          delay = min delay maxDelay;
          delay = (if jit then delay * (0.5 + rnd * 0.5) else delay)
      in \<lfloor>delay\<rfloor>)"


text \<open>
  \<^verbatim>\<open>shouldRetry\<close>: the \<^verbatim>\<open>_error\<close> argument is never read and is left out. The loop over
  \<^verbatim>\<open>retryOn\<close> returns true at the first matching member.
\<close>

definition retry_condition_matches :: "int option \<Rightarrow> RetryCondition \<Rightarrow> bool" where
  "retry_condition_matches statusCode condition =
     ((condition = Network \<and> statusCode = None)
      \<or> (condition = FiveXX \<and> (case statusCode of None \<Rightarrow> False | Some s \<Rightarrow> s \<ge> 500))
      \<or> (case condition of StatusCode c \<Rightarrow> statusCode = Some c | _ \<Rightarrow> False))"

definition shouldRetry :: "RetryConfig \<Rightarrow> int option \<Rightarrow> int \<Rightarrow> bool" where
  "shouldRetry rc statusCode attempt =
     (if \<not> enabled rc then False
      else if attempt \<ge> maxAttempts rc then False
      else list_ex (retry_condition_matches statusCode) (retryOn rc))"

text \<open>\<^verbatim>\<open>backoff\<close> sleeps for the computed delay; the model returns the delay slept.\<close>

definition backoff :: "RetryConfig \<Rightarrow> int \<Rightarrow> real \<Rightarrow> int" where
  "backoff rc attempt rnd =
     computeDelay (strategy rc) attempt (baseDelayMs rc) (maxDelayMs rc) (jitter rc) rnd"

section \<open>Metrics buffer (observability/instrumentation.ts)\<close>

record MetricsSample =
  s_requestId :: string
  s_url :: string
  s_method :: string
  latencyMs :: int
  s_attempt :: int
  s_status :: "int option"
  success :: bool

definition maxSamples :: nat where
  "maxSamples = 1000"

definition metrics_record :: "MetricsSample \<Rightarrow> MetricsSample list \<Rightarrow> MetricsSample list" where
  "metrics_record sample samples =
     (if length samples \<ge> maxSamples then tl samples else samples) @ [sample]"

definition averageLatency :: "MetricsSample list \<Rightarrow> real" where
  "averageLatency samples =
     (if length samples = 0 then 0
      else real_of_int (foldl (\<lambda>acc s. acc + latencyMs s) 0 samples) / real (length samples))"

text \<open>
  \<^verbatim>\<open>recentFailures(windowMs = 60000)\<close>: \<open>now0\<close> is the reading of \<^verbatim>\<open>Date.now()\<close> that
  gives the cutoff, \<open>nowAt i\<close> the reading taken inside the filter callback for the
  sample at index \<open>i\<close>. A sample has no timestamp field: the callback subtracts its
  \<^verbatim>\<open>latencyMs\<close> from the clock.
\<close>

definition recentFailures ::
  "int \<Rightarrow> (nat \<Rightarrow> int) \<Rightarrow> int option \<Rightarrow> MetricsSample list \<Rightarrow> nat" where
  "recentFailures now0 nowAt windowMs samples =
     (let w = (case windowMs of None \<Rightarrow> 60000 | Some v \<Rightarrow> v);
          cutoff = now0 - w
      in length (filter (\<lambda>(i, s). \<not> success s \<and> nowAt i - latencyMs s > cutoff)
                        (zip [0 ..< length samples] samples)))"

text \<open>
  The recent-failures count in the specification's words, over samples paired with the
  time at which each was recorded: the failed samples whose timestamp lies within the
  last \<open>w\<close> milliseconds of \<open>now\<close>.
\<close>

definition spec_recentFailures :: "int \<Rightarrow> int \<Rightarrow> (int \<times> MetricsSample) list \<Rightarrow> nat" where
  "spec_recentFailures now w stamped =
     length (filter (\<lambda>(t, s). \<not> success s \<and> now - t \<le> w \<and> t \<le> now) stamped)"

section \<open>In-flight dedup map (resilience/dedupe.ts)\<close>

text \<open>
  A JavaScript \<^verbatim>\<open>Map\<close> keeps its keys in insertion order: an association list with
  distinct keys, oldest first. \<open>'p\<close> is the identity of a promise object. The entry is
  deleted by key when the promise settles (\<open>dedupe_settled\<close>, the \<^verbatim>\<open>promise.then\<close>
  callbacks of \<^verbatim>\<open>set\<close>).
\<close>

definition MAX_DEDUPE_MAP_SIZE :: nat where
  "MAX_DEDUPE_MAP_SIZE = 1000"

definition dedupe_get :: "string \<Rightarrow> (string \<times> 'p) list \<Rightarrow> 'p option" where
  "dedupe_get key m = map_of m key"

definition dedupe_set :: "string \<Rightarrow> 'p \<Rightarrow> (string \<times> 'p) list \<Rightarrow> (string \<times> 'p) list" where
  "dedupe_set key promise m =
     (let m1 = (if length m \<ge> MAX_DEDUPE_MAP_SIZE
                then (case m of
                        [] \<Rightarrow> m
                      | (firstKey, _) # _ \<Rightarrow>
                          if firstKey \<noteq> [] then AList.delete firstKey m else m)
                else m)
      in AList.update key promise m1)"

definition dedupe_settled :: "string \<Rightarrow> (string \<times> 'p) list \<Rightarrow> (string \<times> 'p) list" where
  "dedupe_settled key m = AList.delete key m"

section \<open>Payload hash and integrity registry (protocol/payloadHash.ts)\<close>

text \<open>
  The platform functions the module calls: the SHA-256 digest rendered as lowercase hex
  and \<^verbatim>\<open>JSON.stringify\<close>. They are parameters of the model. A body that is
  \<^verbatim>\<open>undefined\<close> is \<open>None\<close>.
\<close>

record 'b platform =
  sha256 :: "string \<Rightarrow> string"
  JSON_stringify :: "'b \<Rightarrow> string"

definition computePayloadHash :: "'b platform \<Rightarrow> 'b option \<Rightarrow> string" where
  "computePayloadHash pf body =
     (let serialized = (case body of None \<Rightarrow> [] | Some b \<Rightarrow> JSON_stringify pf b)
      in sha256 pf serialized)"

text \<open>
  \<^verbatim>\<open>enforceIntegrity\<close> over the module-level map \<^verbatim>\<open>idempotencyKeyHashes\<close>, which is
  passed in and returned.
\<close>

definition integrity_violation_message :: "string \<Rightarrow> string" where
  "integrity_violation_message idempotencyKey =
     ''Idempotency key '' @ [CHR 0x22] @ idempotencyKey @ [CHR 0x22]
       @ '' was already used with a different payload.''"

definition enforceIntegrity ::
  "'b platform \<Rightarrow> string \<Rightarrow> 'b option \<Rightarrow> (string \<rightharpoonup> string)
     \<Rightarrow> (exn + string) \<times> (string \<rightharpoonup> string)" where
  "enforceIntegrity pf idempotencyKey body hashes =
     (let hash = computePayloadHash pf body;
          existing = hashes idempotencyKey
      in if existing \<noteq> None \<and> existing \<noteq> Some hash
         then (Inl (IntegrityViolationError (integrity_violation_message idempotencyKey)), hashes)
         else (Inr hash, hashes(idempotencyKey \<mapsto> hash)))"

text \<open>Successive calls of \<^verbatim>\<open>enforceIntegrity\<close> with one key, one call per body of the list.\<close>

fun enforce_seq ::
  "'b platform \<Rightarrow> string \<Rightarrow> 'b option list \<Rightarrow> (string \<rightharpoonup> string)
     \<Rightarrow> (exn + string) list \<times> (string \<rightharpoonup> string)" where
  "enforce_seq pf key [] hashes = ([], hashes)"
| "enforce_seq pf key (b # bs) hashes =
     (case enforceIntegrity pf key b hashes of
        (r, hashes1) \<Rightarrow>
          (case enforce_seq pf key bs hashes1 of (rs, hashes2) \<Rightarrow> (r # rs, hashes2)))"

definition computeDedupeKey :: "string \<Rightarrow> string \<Rightarrow> string \<Rightarrow> string" where
  "computeDedupeKey method url bodyHash = method @ '':'' @ url @ '':'' @ bodyHash"

section \<open>Timeout harness (resilience/timeout.ts)\<close>

text \<open>
  A promise either settles some milliseconds after it was created, with a value or a
  rejection, or never settles. \<^verbatim>\<open>withTimeout\<close> races it against a timer of \<open>ms\<close>
  milliseconds; the timer rejects with \<open>TimeoutError ms\<close> (and aborts the controller,
  which has no effect the engine reads back). A timer never runs before the reactions
  of a promise that has already settled, so a promise settling after at most
  \<open>max 0 ms\<close> wins the race.
\<close>

datatype 'a Promise = Settles int "js_error + 'a" | NeverSettles

definition withTimeout :: "'a Promise \<Rightarrow> int \<Rightarrow> exn + 'a" where
  "withTimeout promise ms =
     (case promise of
        NeverSettles \<Rightarrow> Inl (TimeoutError ms)
      | Settles after outcome \<Rightarrow>
          if after \<le> max 0 ms
          then (case outcome of Inl e \<Rightarrow> Inl (Thrown e) | Inr v \<Rightarrow> Inr v)
          else Inl (TimeoutError ms))"

section \<open>Types of the client (core/types.ts)\<close>

datatype HttpMethod = GET | POST | PUT | PATCH | DELETE | HEAD | OPTIONS

fun method_name :: "HttpMethod \<Rightarrow> string" where
  "method_name GET = ''GET''"
| "method_name POST = ''POST''"
| "method_name PUT = ''PUT''"
| "method_name PATCH = ''PATCH''"
| "method_name DELETE = ''DELETE''"
| "method_name HEAD = ''HEAD''"
| "method_name OPTIONS = ''OPTIONS''"

datatype ProtocolMode = Standard | Idempotent

datatype ClientMode = Strict | Performance

text \<open>
  What the engine passes to \<^verbatim>\<open>fetch\<close> (the abort signal is left out) and what it reads
  of the \<^verbatim>\<open>Response\<close> it gets back: \<^verbatim>\<open>ok\<close>, \<^verbatim>\<open>status\<close>, the headers, and the outcome of
  \<^verbatim>\<open>json()\<close> and of \<^verbatim>\<open>text()\<close>, each of which may reject. \<open>'d\<close> is the type of decoded
  response data.
\<close>

record fetch_init =
  fi_method :: string
  fi_headers :: "(string \<times> string) list"
  fi_body :: "string option"

record 'd Response =
  resp_ok :: bool
  resp_status :: int
  resp_headers :: "(string \<times> string) list"
  resp_json :: "js_error + 'd"
  resp_text :: "js_error + 'd"

text \<open>
  The \<^verbatim>\<open>ok\<close> flag is the platform's: a \<^verbatim>\<open>Response\<close> of \<^verbatim>\<open>fetch\<close> has it set exactly when its
  status is in the range 200 to 299 (the mock of \<^verbatim>\<open>tests/strontium.test.ts\<close>, line 20,
  computes it as \<^verbatim>\<open>status >= 200 && status < 300\<close>). \<open>fetch_ok\<close> says that a response
  record is one \<^verbatim>\<open>fetch\<close> can give in this respect.
\<close>

definition fetch_ok :: "'d Response \<Rightarrow> bool" where
  "fetch_ok r \<longleftrightarrow> (resp_ok r \<longleftrightarrow> 200 \<le> resp_status r \<and> resp_status r < 300)"

type_synonym 'd Transport = "string \<Rightarrow> fetch_init \<Rightarrow> 'd Response Promise"

datatype 'd TransportHandle = defaultTransport | CustomTransport "'d Transport"

record 'd StrontiumClientConfig =
  c_baseURL :: string
  c_retry :: "PartialRetryConfig option"
  c_circuitBreaker :: "PartialCircuitBreakerConfig option"
  c_timeoutMs :: "int option"
  c_dedupe :: "bool option"
  c_protocolMode :: "ProtocolMode option"
  c_mode :: "ClientMode option"
  c_transport :: "'d Transport option"
  c_headers :: "(string \<times> string) list option"

text \<open>
  \<^verbatim>\<open>RequestOptions\<close>: \<open>o_signal\<close> says whether the caller supplied an \<^verbatim>\<open>AbortSignal\<close>; a
  validator is its \<^verbatim>\<open>parse\<close> function, which returns the parsed data or throws.
\<close>

record ('b, 'd) RequestOptions =
  o_method :: HttpMethod
  o_url :: string
  o_body :: "'b option"
  o_headers :: "(string \<times> string) list option"
  o_schema :: "('d \<Rightarrow> js_error + 'd) option"
  o_signal :: bool
  o_idempotencyKey :: "string option"
  o_timeoutMs :: "int option"

record 'd StrontiumResponse =
  r_data :: 'd
  r_status :: int
  r_headers :: "(string \<times> string) list"
  r_requestId :: string
  r_attempt :: int
  r_latencyMs :: int

record HookContext =
  ctx_method :: string
  ctx_url :: string
  ctx_attempt :: int
  ctx_requestId :: string

section \<open>Hooks (hooks/lifecycle.ts)\<close>

text \<open>
  The hook table says for each hook whether a callback is registered. A callback is
  user code: all the engine can observe of it is that it was called, which the model
  records as an event. \<^verbatim>\<open>runHook\<close> calls the callback if there is one and swallows
  whatever it throws. The error passed to \<^verbatim>\<open>onRetry\<close> and \<^verbatim>\<open>onError\<close> is kept in the
  event; the response passed to \<^verbatim>\<open>onAfterResponse\<close> is not.
\<close>

datatype HookName =
  OnBeforeRequest | OnAfterResponse | OnRetry | OnCircuitOpen | OnError | OnCancel

type_synonym Hooks = "HookName \<Rightarrow> bool"

text \<open>
  The effects of a request that the outside can observe, in order: callbacks called,
  calls of the global \<^verbatim>\<open>fetch\<close>, backoff sleeps, and the states the request's state
  machine moves to.
\<close>

datatype event =
    HookCalled HookName HookContext "exn option"
  | FetchCalled string fetch_init
  | Slept int
  | Transitioned RequestState

text \<open>
  Readings of an event log: the hooks called, in order; among them the hooks that close
  a call (\<open>closing_hooks_of\<close>) and the three outcome hooks; the terminal states the state
  machine moved to; the number of \<^verbatim>\<open>fetch\<close> calls.
\<close>

fun hooks_called :: "event list \<Rightarrow> HookName list" where
  "hooks_called [] = []"
| "hooks_called (HookCalled n c a # es) = n # hooks_called es"
| "hooks_called (_ # es) = hooks_called es"

fun states_entered :: "event list \<Rightarrow> RequestState list" where
  "states_entered [] = []"
| "states_entered (Transitioned s # es) = s # states_entered es"
| "states_entered (_ # es) = states_entered es"

fun fetch_count :: "event list \<Rightarrow> nat" where
  "fetch_count [] = 0"
| "fetch_count (FetchCalled u i # es) = Suc (fetch_count es)"
| "fetch_count (_ # es) = fetch_count es"

definition closing_hooks_of :: "event list \<Rightarrow> HookName list" where
  "closing_hooks_of es =
     filter (\<lambda>n. n = OnAfterResponse \<or> n = OnError \<or> n = OnCancel \<or> n = OnCircuitOpen)
       (hooks_called es)"

definition outcome_hooks_of :: "event list \<Rightarrow> HookName list" where
  "outcome_hooks_of es =
     filter (\<lambda>n. n = OnAfterResponse \<or> n = OnError \<or> n = OnCancel) (hooks_called es)"

definition terminal_states_of :: "event list \<Rightarrow> RequestState list" where
  "terminal_states_of es = filter isTerminal (states_entered es)"

section \<open>The client (requestEngine.ts)\<close>

record 'd ClientConfig =
  baseURL :: string
  retry :: RetryConfig
  circuitBreakerConfig :: "PartialCircuitBreakerConfig option"
  timeoutMs :: int
  dedupe :: bool
  protocolMode :: ProtocolMode
  mode :: ClientMode
  transport :: "'d TransportHandle"
  headers :: "(string \<times> string) list"

text \<open>
  The fields of \<^verbatim>\<open>StrontiumClient\<close>. Those a request mutates (the breaker object, the
  dedup map, the metrics buffer, the in-flight counter) form the parent record, shared
  with the state of a running request below; \<^verbatim>\<open>config\<close> and \<^verbatim>\<open>retryConfig\<close> are
  read-only, and \<^verbatim>\<open>hooks\<close> is replaced by \<^verbatim>\<open>use\<close>.
\<close>

record 'p client_state =
  circuitBreaker :: CircuitBreaker
  dedupeMap :: "(string \<times> 'p) list"
  metrics :: "MetricsSample list"
  inFlight :: int

record ('d, 'p) StrontiumClient = "'p client_state" +
  config :: "'d ClientConfig"
  retryConfig :: RetryConfig
  hooks :: Hooks

text \<open>
  The state a running \<^verbatim>\<open>_executeWithRetry\<close> works on: the mutable fields of the client,
  the module-level map \<^verbatim>\<open>idempotencyKeyHashes\<close>, the locals \<^verbatim>\<open>machine\<close> and \<^verbatim>\<open>lastError\<close>,
  and the observable effects so far.
\<close>

record 'p exec_state = "'p client_state" +
  idempotencyKeyHashes :: "string \<rightharpoonup> string"
  machine :: RequestState
  lastError :: "exn option"
  events :: "event list"


text \<open>
  Two conditions on the state of a running request: no terminal state entered and no
  closing hook called so far, the machine in \<open>PENDING\<close>; and the machine in the terminal
  state \<open>s\<close>, the only terminal state entered, with the closing hooks \<open>hs\<close> called.
\<close>

definition quiet :: "'p exec_state \<Rightarrow> bool" where
  "quiet st \<longleftrightarrow>
     machine st = PENDING \<and> terminal_states_of (events st) = []
       \<and> closing_hooks_of (events st) = []"

definition closed_with :: "RequestState \<Rightarrow> HookName list \<Rightarrow> 'p exec_state \<Rightarrow> bool" where
  "closed_with s hs st \<longleftrightarrow>
     machine st = s \<and> terminal_states_of (events st) = [s]
       \<and> closing_hooks_of (events st) = hs"

fun is_ResponseValidationError :: "exn \<Rightarrow> bool" where
  "is_ResponseValidationError (ResponseValidationError _ _) = True"
| "is_ResponseValidationError _ = False"

fun is_TimeoutError :: "exn \<Rightarrow> bool" where
  "is_TimeoutError (TimeoutError _) = True"
| "is_TimeoutError _ = False"






definition MAX_CONCURRENT_REQUESTS :: int where
  "MAX_CONCURRENT_REQUESTS = 100"

definition empty_retry :: PartialRetryConfig where
  "empty_retry = \<lparr>p_enabled = None, p_maxAttempts = None, p_strategy = None,
     p_baseDelayMs = None, p_maxDelayMs = None, p_jitter = None, p_retryOn = None\<rparr>"

definition new_StrontiumClient :: "'d StrontiumClientConfig \<Rightarrow> ('d, 'p) StrontiumClient" where
  "new_StrontiumClient c =
     (let r = (case c_retry c of None \<Rightarrow> empty_retry | Some p \<Rightarrow> p)
      in \<lparr>circuitBreaker = new_CircuitBreaker (c_circuitBreaker c),
          dedupeMap = [],
          metrics = [],
          inFlight = 0,
          config =
            \<lparr>baseURL = c_baseURL c,
             retry = spread_retry_config DEFAULT_RETRY_CONFIG r,
             circuitBreakerConfig = c_circuitBreaker c,
             timeoutMs = (case c_timeoutMs c of None \<Rightarrow> 30000 | Some v \<Rightarrow> v),
             dedupe = (case c_dedupe c of None \<Rightarrow> True | Some v \<Rightarrow> v),
             protocolMode = (case c_protocolMode c of None \<Rightarrow> Standard | Some v \<Rightarrow> v),
             mode = (case c_mode c of None \<Rightarrow> Strict | Some v \<Rightarrow> v),
             transport = (case c_transport c of None \<Rightarrow> defaultTransport | Some t \<Rightarrow> CustomTransport t),
             headers = (case c_headers c of None \<Rightarrow> [] | Some v \<Rightarrow> v)\<rparr>,
          retryConfig =
            (spread_retry_config DEFAULT_RETRY_CONFIG r)
              \<lparr>retryOn := (case p_retryOn r of
                             None \<Rightarrow> retryOn DEFAULT_RETRY_CONFIG | Some v \<Rightarrow> v)\<rparr>,
          hooks = (\<lambda>_. False)\<rparr>)"

definition use :: "Hooks \<Rightarrow> ('d, 'p) StrontiumClient \<Rightarrow> ('d, 'p) StrontiumClient" where
  "use hs cl = cl\<lparr>hooks := (\<lambda>n. hs n \<or> hooks cl n)\<rparr>"

definition runHook ::
  "Hooks \<Rightarrow> HookName \<Rightarrow> HookContext \<Rightarrow> exn option \<Rightarrow> 'p exec_state \<Rightarrow> 'p exec_state" where
  "runHook hk name ctx arg st =
     (if \<not> hk name then st else st\<lparr>events := events st @ [HookCalled name ctx arg]\<rparr>)"

text \<open>\<^verbatim>\<open>machine.transition(next)\<close> on the request's state machine.\<close>

definition machine_transition ::
  "RequestState \<Rightarrow> 'p exec_state \<Rightarrow> (exn + unit) \<times> 'p exec_state" where
  "machine_transition next st =
     (case transition (machine st) next of
        Inl e \<Rightarrow> (Inl e, st)
      | Inr s \<Rightarrow> (Inr (), st\<lparr>machine := s, events := events st @ [Transitioned s]\<rparr>))"

text \<open>
  What one iteration of the attempt loop reads from the world: the clock at the four
  places where \<^verbatim>\<open>Date.now()\<close> is called (in \<^verbatim>\<open>check\<close>, for \<^verbatim>\<open>startTime\<close>, for
  \<^verbatim>\<open>latencyMs\<close>, in \<^verbatim>\<open>recordFailure\<close>), the behaviour of the global \<^verbatim>\<open>fetch\<close>, the
  \<^verbatim>\<open>aborted\<close> flag of the caller's signal when the catch block reads it, the value of
  \<^verbatim>\<open>Math.random()\<close> in the backoff, and the key \<^verbatim>\<open>generateIdempotencyKey()\<close> returns.
\<close>

record 'd attempt_env =
  now_check :: int
  now_start :: int
  now_settled :: int
  now_failure :: int
  global_fetch :: "'d Transport"
  signal_aborted :: bool
  Math_random :: real
  generateIdempotencyKey :: string

text \<open>The arguments of \<^verbatim>\<open>_executeWithRetry\<close>.\<close>

record ('b, 'd) exec_args =
  a_requestId :: string
  a_method :: string
  a_url :: string
  a_body :: "'b option"
  a_headers :: "(string \<times> string) list"
  a_schema :: "('d \<Rightarrow> js_error + 'd) option"
  a_timeoutMs :: int
  a_options :: "('b, 'd) RequestOptions"

text \<open>How an iteration of the loop ends when it does not throw.\<close>

datatype 'd step = Continue | Break | Return "'d StrontiumResponse"


text \<open>Decimal rendering of a status code in the template literal \<^verbatim>\<open>HTTP ${statusCode}\<close>.\<close>

fun decimal :: "nat \<Rightarrow> string" where
  "decimal n = (if 10 \<le> n then decimal (n div 10) else []) @ [''0123456789'' ! (n mod 10)]"

declare decimal.simps [simp del]

definition number_to_string :: "int \<Rightarrow> string" where
  "number_to_string i = (if i < 0 then CHR ''-'' # decimal (nat (- i)) else decimal (nat i))"

text \<open>
  Object spread \<^verbatim>\<open>{...a, ...b}\<close> on header records: the entries of \<open>b\<close> override those of
  \<open>a\<close> with the same name, new names are added at the end.
\<close>

definition spread :: "(string \<times> string) list \<Rightarrow> (string \<times> string) list \<Rightarrow> (string \<times> string) list" where
  "spread a b = fold (\<lambda>(k, v). AList.update k v) b a"

fun str_includes :: "string \<Rightarrow> string \<Rightarrow> bool" where
  "str_includes [] p = (p = [])"
| "str_includes (c # cs) p = (take (length p) (c # cs) = p \<or> str_includes cs p)"

text \<open>
  The steps \<^verbatim>\<open>machine.transition('RETRYING'); await hookRunner.onRetry(ctx, err);
  await backoff(this.retryConfig, attempt); machine.transition('PENDING'); continue;\<close>
  which the source repeats at lines 189-193, 276-280 and 306-310.
\<close>

definition retry_then_continue ::
  "RetryConfig \<Rightarrow> Hooks \<Rightarrow> HookContext \<Rightarrow> int \<Rightarrow> exn \<Rightarrow> real \<Rightarrow> 'p exec_state
     \<Rightarrow> (exn + 'd step) \<times> 'p exec_state" where
  "retry_then_continue rc hk ctx attempt err rnd st =
     (case machine_transition RETRYING st of
        (Inl e, st1) \<Rightarrow> (Inl e, st1)
      | (Inr _, st1) \<Rightarrow>
          (let st2 = runHook hk OnRetry ctx (Some err) st1;
               st3 = st2\<lparr>events := events st2 @ [Slept (backoff rc attempt rnd)]\<rparr>
           in case machine_transition PENDING st3 of
                (Inl e, st4) \<Rightarrow> (Inl e, st4)
              | (Inr _, st4) \<Rightarrow> (Inr Continue, st4)))"

text \<open>
  Lines 120-161: the part of an iteration before the \<^verbatim>\<open>try\<close> statement, up to the
  request headers. It throws at the in-flight cap, when the breaker rejects and when the
  integrity registry rejects; otherwise it yields the headers. Spans are left out: a
  tracer is optional and \<^verbatim>\<open>startSpan\<close> and \<^verbatim>\<open>endSpan\<close> suppress every failure.
\<close>

definition attempt_prelude ::
  "'b platform \<Rightarrow> 'd attempt_env \<Rightarrow> 'd ClientConfig \<Rightarrow> Hooks \<Rightarrow> ('b, 'd) exec_args
     \<Rightarrow> HookContext \<Rightarrow> 'p exec_state \<Rightarrow> (exn + (string \<times> string) list) \<times> 'p exec_state" where
  "attempt_prelude pf env cfg hk args ctx st =
     (if inFlight st \<ge> MAX_CONCURRENT_REQUESTS
      then (Inl (NetworkError ''Max concurrent requests exceeded''), st)
      else
        case check (now_check env) (circuitBreaker st) of
          (Inl err, b) \<Rightarrow>
            (let st1 = runHook hk OnCircuitOpen ctx None (st\<lparr>circuitBreaker := b\<rparr>)
             in case machine_transition ERROR st1 of
                  (Inl e, st2) \<Rightarrow> (Inl e, st2)
                | (Inr _, st2) \<Rightarrow> (Inl err, st2))
        | (Inr _, b) \<Rightarrow>
            (let st1 = runHook hk OnBeforeRequest ctx None (st\<lparr>circuitBreaker := b\<rparr>);
                 hdrs = spread
                          (spread [(''Content-Type'', ''application/json''),
                                   (''X-Request-Id'', a_requestId args)] (headers cfg))
                          (a_headers args)
             in if protocolMode cfg = Idempotent
                then
                  (let idemKey = (case o_idempotencyKey (a_options args) of
                                    None \<Rightarrow> generateIdempotencyKey env | Some k \<Rightarrow> k);
                       hdrs1 = AList.update ''Idempotency-Key'' idemKey hdrs
                   in if a_body args \<noteq> None
                      then
                        (case enforceIntegrity pf idemKey (a_body args) (idempotencyKeyHashes st1) of
                           (Inl e, hashes) \<Rightarrow> (Inl e, st1\<lparr>idempotencyKeyHashes := hashes\<rparr>)
                         | (Inr hash, hashes) \<Rightarrow>
                             (Inr (AList.update ''X-Payload-Hash'' hash hdrs1),
                              st1\<lparr>idempotencyKeyHashes := hashes\<rparr>))
                      else (Inr hdrs1, st1))
                else (Inr hdrs, st1)))"

text \<open>
  Lines 166-246: the \<^verbatim>\<open>try\<close> block. A throw carries the value the local \<^verbatim>\<open>statusCode\<close>
  has at that moment, which the \<^verbatim>\<open>catch\<close> block reads. The transport call is the global
  \<^verbatim>\<open>fetch\<close> under \<^verbatim>\<open>withTimeout\<close>; \<^verbatim>\<open>this.config.transport\<close> is not read.
\<close>

definition try_block ::
  "'b platform \<Rightarrow> 'd attempt_env \<Rightarrow> 'd ClientConfig \<Rightarrow> RetryConfig \<Rightarrow> Hooks
     \<Rightarrow> ('b, 'd) exec_args \<Rightarrow> int \<Rightarrow> HookContext \<Rightarrow> (string \<times> string) list \<Rightarrow> bool \<Rightarrow> int
     \<Rightarrow> 'p exec_state \<Rightarrow> ((exn \<times> int option) + 'd step) \<times> 'p exec_state" where
  "try_block pf env cfg rc hk args attempt ctx hdrs hasBody startTime st =
     (let init = \<lparr>fi_method = a_method args, fi_headers = hdrs,
                  fi_body = (if hasBody then map_option (JSON_stringify pf) (a_body args)
                             else None)\<rparr>;
          st1 = st\<lparr>events := events st @ [FetchCalled (a_url args) init]\<rparr>
      in case withTimeout (global_fetch env (a_url args) init) (a_timeoutMs args) of
           Inl err \<Rightarrow> (Inl (err, None), st1)
         | Inr response \<Rightarrow>
             (let statusCode = resp_status response;
                  lat = now_settled env - startTime;
                  st2 = st1\<lparr>inFlight := inFlight st1 - 1\<rparr>
              in if \<not> resp_ok response
                 then
                   (let err = NetworkError (''HTTP '' @ number_to_string statusCode);
                        st3 = st2\<lparr>circuitBreaker :=
                                     recordFailure (now_failure env) (circuitBreaker st2),
                                   lastError := Some err\<rparr>
                    in if shouldRetry rc (Some statusCode) attempt \<and> attempt < maxAttempts rc
                       then (case retry_then_continue rc hk ctx attempt err (Math_random env) st3 of
                               (Inl e, st4) \<Rightarrow> (Inl (e, Some statusCode), st4)
                             | (Inr s, st4) \<Rightarrow> (Inr s, st4))
                       else (Inr Break, st3))
                 else
                   (let contentType = (case map_of (resp_headers response) ''content-type'' of
                                         None \<Rightarrow> [] | Some v \<Rightarrow> v)
                    in case (if str_includes contentType ''application/json''
                             then resp_json response else resp_text response) of
                         Inl e \<Rightarrow> (Inl (Thrown e, Some statusCode), st2)
                       | Inr decoded \<Rightarrow>
                           (case (case a_schema args of
                                    Some parse \<Rightarrow>
                                      if mode cfg = Strict
                                      then (case parse decoded of
                                              Inl e \<Rightarrow> Inl (ResponseValidationError
                                                             ''Response validation failed'' e)
                                            | Inr parsed \<Rightarrow> Inr parsed)
                                      else Inr decoded
                                  | None \<Rightarrow> Inr decoded) of
                              Inl validationError \<Rightarrow>
                                (case machine_transition ERROR st2 of
                                   (Inl e, st3) \<Rightarrow> (Inl (e, Some statusCode), st3)
                                 | (Inr _, st3) \<Rightarrow>
                                     (Inl (validationError, Some statusCode),
                                      runHook hk OnError ctx (Some validationError) st3))
                            | Inr dat \<Rightarrow>
                                (let st3 = st2\<lparr>circuitBreaker := recordSuccess (circuitBreaker st2)\<rparr>
                                 in case machine_transition SUCCESS st3 of
                                      (Inl e, st4) \<Rightarrow> (Inl (e, Some statusCode), st4)
                                    | (Inr _, st4) \<Rightarrow>
                                        (let result = \<lparr>r_data = dat, r_status = statusCode,
                                                        r_headers = resp_headers response,
                                                        r_requestId = a_requestId args,
                                                        r_attempt = attempt, r_latencyMs = lat\<rparr>;
                                             st5 = st4\<lparr>metrics := metrics_record
                                                     \<lparr>s_requestId = a_requestId args,
                                                      s_url = a_url args, s_method = a_method args,
                                                      latencyMs = lat, s_attempt = attempt,
                                                      s_status = Some statusCode, success = True\<rparr>
                                                     (metrics st4)\<rparr>
                                         in (Inr (Return result),
                                             runHook hk OnAfterResponse ctx None st5)))))))"

text \<open>The \<^verbatim>\<open>instanceof\<close> tests of the \<^verbatim>\<open>catch\<close> block.\<close>

fun is_TypeError :: "exn \<Rightarrow> bool" where
  "is_TypeError (Thrown (TypeError _)) = True"
| "is_TypeError _ = False"

text \<open>
  Lines 247-319: the \<^verbatim>\<open>catch\<close> block, for the error \<open>err\<close> the \<^verbatim>\<open>try\<close> block threw while
  \<^verbatim>\<open>statusCode\<close> had the value \<open>statusCode\<close>. What it throws leaves the function.
\<close>

definition catch_block ::
  "'d attempt_env \<Rightarrow> RetryConfig \<Rightarrow> Hooks \<Rightarrow> ('b, 'd) exec_args \<Rightarrow> int \<Rightarrow> HookContext \<Rightarrow> int
     \<Rightarrow> int option \<Rightarrow> exn \<Rightarrow> 'p exec_state \<Rightarrow> (exn + 'd step) \<times> 'p exec_state" where
  "catch_block env rc hk args attempt ctx startTime statusCode err st =
     (if is_ResponseValidationError err then (Inl err, st)
      else
        (let st1 = st\<lparr>inFlight := inFlight st - 1\<rparr>;
             lat = now_settled env - startTime
         in if is_TimeoutError err \<or> err = Thrown AbortError
            then
              (let timeoutError = (if is_TimeoutError err then err
                                   else TimeoutError (a_timeoutMs args));
                   st2 = st1\<lparr>lastError := Some timeoutError\<rparr>
               in if o_signal (a_options args) \<and> signal_aborted env
                  then
                    (case machine_transition CANCELLED st2 of
                       (Inl e, st3) \<Rightarrow> (Inl e, st3)
                     | (Inr _, st3) \<Rightarrow> (Inl timeoutError, runHook hk OnCancel ctx None st3))
                  else
                    (let st3 = st2\<lparr>circuitBreaker :=
                                     recordFailure (now_failure env) (circuitBreaker st2),
                                   metrics := metrics_record
                                     \<lparr>s_requestId = a_requestId args, s_url = a_url args,
                                      s_method = a_method args, latencyMs = lat,
                                      s_attempt = attempt, s_status = None, success = False\<rparr>
                                     (metrics st2)\<rparr>
                     in if shouldRetry rc None attempt \<and> attempt < maxAttempts rc
                        then retry_then_continue rc hk ctx attempt timeoutError (Math_random env) st3
                        else
                          (case machine_transition ERROR st3 of
                             (Inl e, st4) \<Rightarrow> (Inl e, st4)
                           | (Inr _, st4) \<Rightarrow> (Inl timeoutError, st4))))
            else if machine st1 \<noteq> ERROR \<and> machine st1 \<noteq> CANCELLED
            then
              (let isNetworkErr = is_TypeError err;
                   st2 = st1\<lparr>lastError := Some err,
                             circuitBreaker :=
                               recordFailure (now_failure env) (circuitBreaker st1),
                             metrics := metrics_record
                               \<lparr>s_requestId = a_requestId args, s_url = a_url args,
                                s_method = a_method args, latencyMs = lat,
                                s_attempt = attempt, s_status = statusCode, success = False\<rparr>
                               (metrics st1)\<rparr>
               in if isNetworkErr \<and> shouldRetry rc None attempt \<and> attempt < maxAttempts rc
                  then retry_then_continue rc hk ctx attempt err (Math_random env) st2
                  else
                    (case machine_transition ERROR st2 of
                       (Inl e, st3) \<Rightarrow> (Inl e, st3)
                     | (Inr _, st3) \<Rightarrow> (Inl err, runHook hk OnError ctx (Some err) st3)))
            else (Inl err, st1)))"

text \<open>Lines 120-320: one iteration of the attempt loop.\<close>

definition attempt_body ::
  "'b platform \<Rightarrow> 'd attempt_env \<Rightarrow> 'd ClientConfig \<Rightarrow> RetryConfig \<Rightarrow> Hooks \<Rightarrow> ('b, 'd) exec_args
     \<Rightarrow> int \<Rightarrow> 'p exec_state \<Rightarrow> (exn + 'd step) \<times> 'p exec_state" where
  "attempt_body pf env cfg rc hk args attempt st =
     (let ctx = \<lparr>ctx_method = a_method args, ctx_url = a_url args, ctx_attempt = attempt,
                 ctx_requestId = a_requestId args\<rparr>
      in case attempt_prelude pf env cfg hk args ctx st of
           (Inl e, st1) \<Rightarrow> (Inl e, st1)
         | (Inr hdrs, st1) \<Rightarrow>
             (let hasBody = (a_body args \<noteq> None \<and> a_method args \<noteq> ''GET''
                               \<and> a_method args \<noteq> ''HEAD'');
                  startTime = now_start env;
                  st2 = st1\<lparr>inFlight := inFlight st1 + 1\<rparr>
              in case try_block pf env cfg rc hk args attempt ctx hdrs hasBody startTime st2 of
                   (Inl (err, statusCode), st3) \<Rightarrow>
                     catch_block env rc hk args attempt ctx startTime statusCode err st3
                 | (Inr s, st3) \<Rightarrow> (Inr s, st3)))"

text \<open>
  The \<^verbatim>\<open>for\<close> loop of line 119, from attempt number \<open>attempt\<close> on; \<open>env n\<close> is what the
  world answers during attempt \<open>n\<close>. The loop yields the response it returned, or
  \<open>None\<close> when it was left by \<^verbatim>\<open>break\<close> or by its condition.
\<close>

function attempt_loop ::
  "'b platform \<Rightarrow> (int \<Rightarrow> 'd attempt_env) \<Rightarrow> 'd ClientConfig \<Rightarrow> RetryConfig \<Rightarrow> Hooks
     \<Rightarrow> ('b, 'd) exec_args \<Rightarrow> int \<Rightarrow> 'p exec_state
     \<Rightarrow> (exn + 'd StrontiumResponse option) \<times> 'p exec_state" where
  "attempt_loop pf env cfg rc hk args attempt st =
     (if attempt \<le> maxAttempts rc
      then (case attempt_body pf (env attempt) cfg rc hk args attempt st of
              (Inl e, st1) \<Rightarrow> (Inl e, st1)
            | (Inr Continue, st1) \<Rightarrow> attempt_loop pf env cfg rc hk args (attempt + 1) st1
            | (Inr Break, st1) \<Rightarrow> (Inr None, st1)
            | (Inr (Return r), st1) \<Rightarrow> (Inr (Some r), st1))
      else (Inr None, st))"
  by pat_completeness auto
termination
  by (relation "measure (\<lambda>(pf, env, cfg, rc, hk, args, attempt, st). nat (maxAttempts rc + 1 - attempt))")
     auto

declare attempt_loop.simps [simp del]

text \<open>
  \<^verbatim>\<open>_executeWithRetry\<close>: a new state machine (in \<open>IDLE\<close>), the hook runner over the
  hooks of the moment, the loop, and lines 322-326 after it.
\<close>

definition executeWithRetry ::
  "'b platform \<Rightarrow> (int \<Rightarrow> 'd attempt_env) \<Rightarrow> 'd ClientConfig \<Rightarrow> RetryConfig \<Rightarrow> Hooks
     \<Rightarrow> ('b, 'd) exec_args \<Rightarrow> 'p exec_state \<Rightarrow> (exn + 'd StrontiumResponse) \<times> 'p exec_state" where
  "executeWithRetry pf env cfg rc hk args st =
     (case machine_transition PENDING (st\<lparr>machine := IDLE, lastError := None\<rparr>) of
        (Inl e, st1) \<Rightarrow> (Inl e, st1)
      | (Inr _, st1) \<Rightarrow>
          (case attempt_loop pf env cfg rc hk args 1 st1 of
             (Inl e, st2) \<Rightarrow> (Inl e, st2)
           | (Inr (Some r), st2) \<Rightarrow> (Inr r, st2)
           | (Inr None, st2) \<Rightarrow>
               (case machine_transition ERROR st2 of
                  (Inl e, st3) \<Rightarrow> (Inl e, st3)
                | (Inr _, st3) \<Rightarrow>
                    if maxAttempts rc \<le> 1
                    then (Inl (case lastError st3 of
                                 None \<Rightarrow> NetworkError ''Request failed'' | Some e \<Rightarrow> e), st3)
                    else (Inl (RetryExhaustedError (maxAttempts rc) (lastError st3)), st3))))"

text \<open>
  \<^verbatim>\<open>request\<close>, lines 66-99. The call of \<^verbatim>\<open>_executeWithRetry\<close> yields a new promise object,
  whose identity \<open>new_promise\<close> the world supplies together with the request id; the
  result says whether the caller got a promise already in the dedup map or the promise
  of a newly started execution, with the arguments of that execution.
\<close>

record 'p request_env =
  generateRequestId :: string
  new_promise :: 'p

datatype ('b, 'd, 'p) request_result =
    ReturnedExisting 'p
  | Started 'p "('b, 'd) exec_args"

definition request ::
  "'b platform \<Rightarrow> 'p request_env \<Rightarrow> ('b, 'd) RequestOptions \<Rightarrow> ('d, 'p) StrontiumClient
     \<Rightarrow> ('b, 'd, 'p) request_result \<times> ('d, 'p) StrontiumClient" where
  "request pf renv options cl =
     (let fullUrl = (if take 4 (o_url options) = ''http'' then o_url options
                     else baseURL (config cl) @ o_url options);
          requestId = generateRequestId renv;
          effectiveTimeout = (case o_timeoutMs options of
                                None \<Rightarrow> timeoutMs (config cl) | Some v \<Rightarrow> v);
          args = \<lparr>a_requestId = requestId, a_method = method_name (o_method options),
                  a_url = fullUrl, a_body = o_body options,
                  a_headers = (case o_headers options of None \<Rightarrow> [] | Some h \<Rightarrow> h),
                  a_schema = o_schema options, a_timeoutMs = effectiveTimeout,
                  a_options = options\<rparr>
      in if dedupe (config cl)
            \<and> (o_method options = GET \<or> o_method options = HEAD)
            \<and> maxAttempts (retryConfig cl) \<le> 1
         then
           (let bodyHash = computePayloadHash pf (o_body options);
                dedupeKey = computeDedupeKey (method_name (o_method options)) fullUrl bodyHash
            in case dedupe_get dedupeKey (dedupeMap cl) of
                 Some existing \<Rightarrow> (ReturnedExisting existing, cl)
               | None \<Rightarrow>
                   (Started (new_promise renv) args,
                    cl\<lparr>dedupeMap := dedupe_set dedupeKey (new_promise renv) (dedupeMap cl)\<rparr>))
         else (Started (new_promise renv) args, cl))"

text \<open>
  A started execution run to its end on the client: the state of the run is the
  client's mutable fields with the registry, and the client takes them back afterwards.
\<close>

definition run_started ::
  "'b platform \<Rightarrow> (int \<Rightarrow> 'd attempt_env) \<Rightarrow> ('b, 'd) exec_args \<Rightarrow> (string \<rightharpoonup> string)
     \<Rightarrow> ('d, 'p) StrontiumClient
     \<Rightarrow> (exn + 'd StrontiumResponse) \<times> 'p exec_state" where
  "run_started pf env args hashes cl =
     executeWithRetry pf env (config cl) (retryConfig cl) (hooks cl) args
       \<lparr>circuitBreaker = circuitBreaker cl, dedupeMap = dedupeMap cl, metrics = metrics cl,
        inFlight = inFlight cl, idempotencyKeyHashes = hashes, machine = IDLE,
        lastError = None, events = []\<rparr>"

text \<open>\<^verbatim>\<open>health()\<close>.\<close>

definition health :: "('d, 'p) StrontiumClient \<Rightarrow> CircuitState \<times> nat \<times> real" where
  "health cl = (cb_state (circuitBreaker cl), failures (circuitBreaker cl), averageLatency (metrics cl))"

text \<open>
  Names for terms of an iteration that statements about it mention: the hook context of
  line 113 with \<^verbatim>\<open>ctx.attempt\<close> set, the argument the engine passes to \<^verbatim>\<open>fetch\<close>, the
  outcome of the transport call under \<^verbatim>\<open>withTimeout\<close>, and the decoded body (lines
  199-204).
\<close>

abbreviation hook_context :: "('b, 'd) exec_args \<Rightarrow> int \<Rightarrow> HookContext" where
  "hook_context args attempt \<equiv>
     \<lparr>ctx_method = a_method args, ctx_url = a_url args, ctx_attempt = attempt,
      ctx_requestId = a_requestId args\<rparr>"

abbreviation fetch_init_of ::
  "'b platform \<Rightarrow> ('b, 'd) exec_args \<Rightarrow> (string \<times> string) list \<Rightarrow> fetch_init" where
  "fetch_init_of pf args hdrs \<equiv>
     \<lparr>fi_method = a_method args, fi_headers = hdrs,
      fi_body = (if a_body args \<noteq> None \<and> a_method args \<noteq> ''GET'' \<and> a_method args \<noteq> ''HEAD''
                 then map_option (JSON_stringify pf) (a_body args) else None)\<rparr>"

abbreviation transport_call ::
  "'b platform \<Rightarrow> 'd attempt_env \<Rightarrow> ('b, 'd) exec_args \<Rightarrow> (string \<times> string) list
     \<Rightarrow> exn + 'd Response" where
  "transport_call pf env args hdrs \<equiv>
     withTimeout (global_fetch env (a_url args) (fetch_init_of pf args hdrs)) (a_timeoutMs args)"

abbreviation decoded_body :: "'d Response \<Rightarrow> js_error + 'd" where
  "decoded_body response \<equiv>
     (if str_includes (case map_of (resp_headers response) ''content-type'' of
                         None \<Rightarrow> [] | Some v \<Rightarrow> v) ''application/json''
      then resp_json response else resp_text response)"

section \<open>Example inputs\<close>

text \<open>
  Concrete inputs for evaluating the model: a platform whose digest is string reversal,
  a response with a JSON content type, a world whose \<^verbatim>\<open>fetch\<close> always gives the same
  promise, a client built by the constructor with \<open>maxAttempts = 1\<close> and a custom
  transport that would answer 200, with every hook registered.
\<close>

definition ex_platform :: "string platform" where
  "ex_platform = \<lparr>sha256 = rev, JSON_stringify = id\<rparr>"

definition ex_response :: "bool \<Rightarrow> int \<Rightarrow> string Response" where
  "ex_response okf code =
     \<lparr>resp_ok = okf, resp_status = code,
      resp_headers = [(''content-type'', ''application/json'')],
      resp_json = Inr ''{}'', resp_text = Inr ''{}''\<rparr>"

definition ex_env :: "string Response Promise \<Rightarrow> int \<Rightarrow> string attempt_env" where
  "ex_env p n =
     \<lparr>now_check = 1000 * n, now_start = 1000 * n, now_settled = 1000 * n + 5,
      now_failure = 1000 * n + 5, global_fetch = (\<lambda>url init. p), signal_aborted = False,
      Math_random = 0, generateIdempotencyKey = ''idem_1''\<rparr>"

definition ex_env_aborted :: "string Response Promise \<Rightarrow> int \<Rightarrow> string attempt_env" where
  "ex_env_aborted p n = (ex_env p n)\<lparr>signal_aborted := True\<rparr>"

definition ex_transport_ok :: "string Transport" where
  "ex_transport_ok = (\<lambda>url init. Settles 1 (Inr (ex_response True 200)))"

definition ex_user_config :: "string StrontiumClientConfig" where
  "ex_user_config =
     \<lparr>c_baseURL = ''https://api.example.com'',
      c_retry = Some (empty_retry\<lparr>p_maxAttempts := Some 1\<rparr>),
      c_circuitBreaker = None, c_timeoutMs = None, c_dedupe = None, c_protocolMode = None,
      c_mode = None, c_transport = Some ex_transport_ok, c_headers = None\<rparr>"

definition ex_client :: "(string, nat) StrontiumClient" where
  "ex_client = use (\<lambda>_. True) (new_StrontiumClient ex_user_config)"

definition ex_options :: "(string, string) RequestOptions" where
  "ex_options =
     \<lparr>o_method = GET, o_url = ''/users/1'', o_body = None, o_headers = None, o_schema = None,
      o_signal = False, o_idempotencyKey = None, o_timeoutMs = None\<rparr>"

definition ex_args :: "(string, string) exec_args" where
  "ex_args =
     \<lparr>a_requestId = ''req_1'', a_method = ''GET'', a_url = ''https://api.example.com/users/1'',
      a_body = None, a_headers = [], a_schema = None, a_timeoutMs = 30000,
      a_options = ex_options\<rparr>"

definition ex_args_signal :: "(string, string) exec_args" where
  "ex_args_signal = ex_args\<lparr>a_options := ex_options\<lparr>o_signal := True\<rparr>\<rparr>"

definition ex_rejecting_schema :: "string \<Rightarrow> js_error + string" where
  "ex_rejecting_schema d = Inl (OtherError ''missing id'')"

definition ex_state :: "CircuitBreaker \<Rightarrow> nat exec_state" where
  "ex_state b =
     \<lparr>circuitBreaker = b, dedupeMap = [], metrics = [], inFlight = 0,
      idempotencyKeyHashes = Map.empty, machine = IDLE, lastError = None, events = []\<rparr>"

definition ex_open_breaker :: CircuitBreaker where
  "ex_open_breaker =
     \<lparr>cb_state = OPEN, failures = 5, halfOpenCalls = 0, lastOpenedAt = 900,
      cb_config = DEFAULT_CIRCUIT_BREAKER_CONFIG\<rparr>"

section \<open>Circuit breaker: properties\<close>

lemma recordFailure_config [simp]: "cb_config (recordFailure now b) = cb_config b"
  by (simp add: recordFailure_def Let_def)

lemma recordFailure_failures [simp]: "failures (recordFailure now b) = failures b + 1"
  by (simp add: recordFailure_def Let_def)

lemma recordFailures_config [simp]: "cb_config (recordFailures ts b) = cb_config b"
  by (induction ts arbitrary: b) simp_all

lemma recordFailures_failures [simp]:
  "failures (recordFailures ts b) = failures b + length ts"
  by (induction ts arbitrary: b) simp_all

lemma recordFailure_not_HALF_OPEN [simp]: "cb_state (recordFailure now b) \<noteq> HALF_OPEN"
  by (simp add: recordFailure_def Let_def)

lemma recordFailure_over_threshold:
  "int (failures b) + 1 \<ge> failureThreshold (cb_config b) \<Longrightarrow>
   cb_state (recordFailure now b) = OPEN \<and> lastOpenedAt (recordFailure now b) = now"
  by (simp add: recordFailure_def Let_def)

lemma recordFailures_snoc:
  "recordFailures (ts @ [t]) b = recordFailure t (recordFailures ts b)"
  by (induction ts arbitrary: b) simp_all

lemma recordFailures_opens:
  assumes "ts \<noteq> []" and "int (length ts) \<ge> failureThreshold (cb_config b)"
  shows "cb_state (recordFailures ts b) = OPEN \<and> lastOpenedAt (recordFailures ts b) = last ts"
proof -
  obtain us t where ts: "ts = us @ [t]"
    using assms(1) by (metis append_butlast_last_id)
  have "int (failures (recordFailures us b)) + 1 \<ge> failureThreshold (cb_config (recordFailures us b))"
    using assms(2) by (simp add: ts)
  from recordFailure_over_threshold [OF this, of t] show ?thesis
    by (simp add: ts recordFailures_snoc)
qed

section \<open>Claims about the circuit breaker\<close>

text \<open>
  C4. For every circuit breaker: \<open>failureThreshold\<close> consecutive \<^verbatim>\<open>recordFailure\<close> calls
  starting in \<open>CLOSED\<close> leave it \<open>OPEN\<close> (stamped with the time of the last call; the
  threshold is at least 1, as the data model says). A \<^verbatim>\<open>check()\<close> of an \<open>OPEN\<close> breaker at
  least \<open>resetTimeoutMs\<close> after \<open>lastOpenedAt\<close> moves it to \<open>HALF_OPEN\<close> and resets
  \<open>halfOpenCalls\<close> to 0: the check goes on exactly as from the breaker with state
  \<open>HALF_OPEN\<close> and \<open>halfOpenCalls = 0\<close>, so the counter afterwards is 0 plus the probe this
  check admits. \<^verbatim>\<open>recordSuccess\<close> in \<open>HALF_OPEN\<close> gives \<open>CLOSED\<close> with \<open>failures = 0\<close>;
  \<^verbatim>\<open>recordFailure\<close> in \<open>HALF_OPEN\<close> gives \<open>OPEN\<close> and stamps \<open>lastOpenedAt\<close> with the
  current time.
\<close>

theorem breaker_lifecycle:
  "(cb_state b = CLOSED \<and> 1 \<le> failureThreshold (cb_config b)
      \<and> int (length ts) = failureThreshold (cb_config b)
     \<longrightarrow> cb_state (recordFailures ts b) = OPEN \<and> lastOpenedAt (recordFailures ts b) = last ts)
   \<and> (cb_state bo = OPEN \<and> resetTimeoutMs (cb_config bo) \<le> now - lastOpenedAt bo
     \<longrightarrow> cb_state (snd (check now bo)) = HALF_OPEN
         \<and> check now bo = check now (bo\<lparr>cb_state := HALF_OPEN, halfOpenCalls := 0\<rparr>)
         \<and> halfOpenCalls (snd (check now bo)) = (if fst (check now bo) = Inr () then 1 else 0)
         \<and> (fst (check now bo) = Inr () \<longleftrightarrow> 1 \<le> halfOpenMaxCalls (cb_config bo)))
   \<and> (cb_state bh = HALF_OPEN
     \<longrightarrow> cb_state (recordSuccess bh) = CLOSED \<and> failures (recordSuccess bh) = 0
         \<and> cb_state (recordFailure now bh) = OPEN \<and> lastOpenedAt (recordFailure now bh) = now)"
proof (intro conjI impI)
  assume h: "cb_state b = CLOSED \<and> 1 \<le> failureThreshold (cb_config b)
      \<and> int (length ts) = failureThreshold (cb_config b)"
  then have "ts \<noteq> []" by auto
  with h recordFailures_opens [of ts b]
  show "cb_state (recordFailures ts b) = OPEN" "lastOpenedAt (recordFailures ts b) = last ts"
    by simp_all
next
  assume h: "cb_state bo = OPEN \<and> resetTimeoutMs (cb_config bo) \<le> now - lastOpenedAt bo"
  then show "cb_state (snd (check now bo)) = HALF_OPEN"
    by (simp add: check_def)
  from h show "check now bo = check now (bo\<lparr>cb_state := HALF_OPEN, halfOpenCalls := 0\<rparr>)"
    by (simp add: check_def)
  from h show "halfOpenCalls (snd (check now bo)) = (if fst (check now bo) = Inr () then 1 else 0)"
    by (simp add: check_def)
  from h show "fst (check now bo) = Inr () \<longleftrightarrow> 1 \<le> halfOpenMaxCalls (cb_config bo)"
    by (auto simp add: check_def)
next
  assume h: "cb_state bh = HALF_OPEN"
  then show "cb_state (recordSuccess bh) = CLOSED" "failures (recordSuccess bh) = 0"
    "cb_state (recordFailure now bh) = OPEN" "lastOpenedAt (recordFailure now bh) = now"
    by (simp_all add: recordSuccess_def recordFailure_def Let_def)
qed

theorem breaker_lifecycle_witness:
  "cb_state (recordFailures [1, 2, 3] (new_CircuitBreaker (Some \<lparr>p_failureThreshold = Some 3, p_resetTimeoutMs = Some 10, p_halfOpenMaxCalls = None\<rparr>))) = OPEN
   \<and> check 23 \<lparr>cb_state = OPEN, failures = 3, halfOpenCalls = 0, lastOpenedAt = 3, cb_config = \<lparr>failureThreshold = 3, resetTimeoutMs = 10, halfOpenMaxCalls = 1\<rparr>\<rparr>
      = (Inr (), \<lparr>cb_state = HALF_OPEN, failures = 3, halfOpenCalls = 1, lastOpenedAt = 3, cb_config = \<lparr>failureThreshold = 3, resetTimeoutMs = 10, halfOpenMaxCalls = 1\<rparr>\<rparr>)
   \<and> cb_state (recordSuccess \<lparr>cb_state = HALF_OPEN, failures = 3, halfOpenCalls = 1, lastOpenedAt = 3, cb_config = \<lparr>failureThreshold = 3, resetTimeoutMs = 10, halfOpenMaxCalls = 1\<rparr>\<rparr>) = CLOSED"
  using breaker_lifecycle [of "new_CircuitBreaker (Some \<lparr>p_failureThreshold = Some 3, p_resetTimeoutMs = Some 10, p_halfOpenMaxCalls = None\<rparr>)"
      "[1, 2, 3]"
      "\<lparr>cb_state = OPEN, failures = 3, halfOpenCalls = 0, lastOpenedAt = 3, cb_config = \<lparr>failureThreshold = 3, resetTimeoutMs = 10, halfOpenMaxCalls = 1\<rparr>\<rparr>"
      23
      "\<lparr>cb_state = HALF_OPEN, failures = 3, halfOpenCalls = 1, lastOpenedAt = 3, cb_config = \<lparr>failureThreshold = 3, resetTimeoutMs = 10, halfOpenMaxCalls = 1\<rparr>\<rparr>"]
  by (simp add: new_CircuitBreaker_def spread_breaker_config_def DEFAULT_CIRCUIT_BREAKER_CONFIG_def check_def recordSuccess_def)

text \<open>
  C10. For every circuit breaker in state \<open>OPEN\<close>, a \<^verbatim>\<open>recordFailure\<close> whose incremented
  failure count is at least \<open>failureThreshold\<close> keeps the state \<open>OPEN\<close> and stamps
  \<open>lastOpenedAt\<close> with the current time, so that every \<^verbatim>\<open>check()\<close> earlier than
  \<open>resetTimeoutMs\<close> after this new stamp is rejected with \<open>CircuitOpenError\<close>.
\<close>

theorem recordFailure_while_open:
  assumes "cb_state b = OPEN"
    and "failureThreshold (cb_config b) \<le> int (failures b + 1)"
  shows "cb_state (recordFailure now b) = OPEN
     \<and> lastOpenedAt (recordFailure now b) = now
     \<and> failures (recordFailure now b) = failures b + 1
     \<and> (\<forall>t. t - now < resetTimeoutMs (cb_config b)
           \<longrightarrow> check t (recordFailure now b) = (Inl CircuitOpenError, recordFailure now b))"
  using assms by (simp add: recordFailure_def check_def Let_def)

theorem recordFailure_while_open_witness:
  "recordFailure 500 \<lparr>cb_state = OPEN, failures = 3, halfOpenCalls = 0, lastOpenedAt = 100, cb_config = \<lparr>failureThreshold = 3, resetTimeoutMs = 1000, halfOpenMaxCalls = 1\<rparr>\<rparr>
     = \<lparr>cb_state = OPEN, failures = 4, halfOpenCalls = 0, lastOpenedAt = 500, cb_config = \<lparr>failureThreshold = 3, resetTimeoutMs = 1000, halfOpenMaxCalls = 1\<rparr>\<rparr>
   \<and> fst (check 1200 (recordFailure 500 \<lparr>cb_state = OPEN, failures = 3, halfOpenCalls = 0, lastOpenedAt = 100, cb_config = \<lparr>failureThreshold = 3, resetTimeoutMs = 1000, halfOpenMaxCalls = 1\<rparr>\<rparr>)) = Inl CircuitOpenError
   \<and> fst (check 1200 \<lparr>cb_state = OPEN, failures = 3, halfOpenCalls = 0, lastOpenedAt = 100, cb_config = \<lparr>failureThreshold = 3, resetTimeoutMs = 1000, halfOpenMaxCalls = 1\<rparr>\<rparr>) = Inr ()"
  using recordFailure_while_open [of "\<lparr>cb_state = OPEN, failures = 3, halfOpenCalls = 0, lastOpenedAt = 100, cb_config = \<lparr>failureThreshold = 3, resetTimeoutMs = 1000, halfOpenMaxCalls = 1\<rparr>\<rparr>" 500]
  by (simp add: recordFailure_def check_def Let_def)

section \<open>Backoff: properties\<close>






section \<open>Claims about backoff\<close>




section \<open>Metrics buffer: properties\<close>

lemma filter_zip_upt_length:
  "length (filter (\<lambda>(i, s). P s) (zip [n ..< n + length xs] xs)) = length (filter P xs)"
proof (induction xs arbitrary: n)
  case Nil
  show ?case by simp
next
  case (Cons x xs)
  have "[n ..< n + length (x # xs)] = n # [Suc n ..< Suc n + length xs]"
    by (subst upt_conv_Cons) simp_all
  with Cons.IH [of "Suc n"] show ?case by simp
qed

lemma recentFailures_steady_clock:
  "recentFailures now (\<lambda>_. now) w samples =
     length (filter (\<lambda>s. \<not> success s \<and> latencyMs s < (case w of None \<Rightarrow> 60000 | Some v \<Rightarrow> v)) samples)"
proof -
  have "(\<lambda>(i::nat, s). \<not> success s \<and> now - (case w of None \<Rightarrow> 60000 | Some v \<Rightarrow> v) < now - latencyMs s)
        = (\<lambda>(i, s). \<not> success s \<and> latencyMs s < (case w of None \<Rightarrow> 60000 | Some v \<Rightarrow> v))"
    by auto
  then show ?thesis
    using filter_zip_upt_length [of "\<lambda>s. \<not> success s \<and> latencyMs s < (case w of None \<Rightarrow> 60000 | Some v \<Rightarrow> v)" 0 samples]
    by (simp add: recentFailures_def Let_def)
qed

section \<open>Claims about the metrics buffer\<close>

text \<open>
  C3 (the code departs from the claim). A failed sample with \<open>latencyMs = 5\<close> recorded at
  time 0 and read two hours later (clock at 7200000 ms, window 60000 ms) is counted by
  \<^verbatim>\<open>recentFailures\<close>, although its timestamp is far outside the window; a failed sample
  with \<open>latencyMs = 70000\<close> recorded 10 ms before the reading is not counted, although
  it lies within the window. The count over timestamps that the claim describes is 0 and
  1 on these two buffers; the code returns 1 and 0.
\<close>

theorem recentFailures_diverges:
  "recentFailures 7200000 (\<lambda>_. 7200000) (Some 60000)
     [\<lparr>s_requestId = ''req_1'', s_url = ''/a'', s_method = ''GET'', latencyMs = 5,
       s_attempt = 1, s_status = None, success = False\<rparr>] = 1
   \<and> spec_recentFailures 7200000 60000
     [(0, \<lparr>s_requestId = ''req_1'', s_url = ''/a'', s_method = ''GET'', latencyMs = 5,
       s_attempt = 1, s_status = None, success = False\<rparr>)] = 0
   \<and> recentFailures 7200000 (\<lambda>_. 7200000) (Some 60000)
     [\<lparr>s_requestId = ''req_2'', s_url = ''/a'', s_method = ''GET'', latencyMs = 70000,
       s_attempt = 1, s_status = None, success = False\<rparr>] = 0
   \<and> spec_recentFailures 7200000 60000
     [(7199990, \<lparr>s_requestId = ''req_2'', s_url = ''/a'', s_method = ''GET'', latencyMs = 70000,
       s_attempt = 1, s_status = None, success = False\<rparr>)] = 1"
  by (simp add: recentFailures_def spec_recentFailures_def Let_def)

section \<open>Integrity registry: properties\<close>

lemma enforceIntegrity_pinned:
  assumes "hashes key = Some h"
  shows "enforceIntegrity pf key body hashes =
           (if computePayloadHash pf body = h then Inr h
            else Inl (IntegrityViolationError (integrity_violation_message key)), hashes)"
proof -
  have "hashes(key \<mapsto> h) = hashes"
    using assms by (simp add: map_upd_triv)
  then show ?thesis
    using assms by (auto simp add: enforceIntegrity_def Let_def)
qed

lemma enforceIntegrity_fresh:
  assumes "hashes key = None"
  shows "enforceIntegrity pf key body hashes =
           (Inr (computePayloadHash pf body), hashes(key \<mapsto> computePayloadHash pf body))"
  using assms by (simp add: enforceIntegrity_def Let_def)

lemma enforce_seq_pinned:
  assumes "hashes key = Some h"
  shows "enforce_seq pf key bodies hashes =
           (map (\<lambda>b. if computePayloadHash pf b = h then Inr h
                      else Inl (IntegrityViolationError (integrity_violation_message key))) bodies,
            hashes)"
  by (induction bodies) (simp_all add: enforceIntegrity_pinned [where hashes = hashes and key = key, OF assms])

lemma enforceIntegrity_keeps_pin:
  assumes "hashes key = Some h"
  shows "snd (enforceIntegrity pf key' body hashes) key = Some h"
  using assms by (auto simp add: enforceIntegrity_def Let_def)

section \<open>Claims about the integrity registry\<close>

text \<open>
  C5. For every idempotency key: a first \<^verbatim>\<open>enforceIntegrity(key, body)\<close> on a registry
  that does not know the key succeeds, returns the SHA-256 fingerprint of the
  canonicalized body and pins it. Once a fingerprint \<open>h\<close> is pinned for the key, every
  later call with that key and a body of fingerprint \<open>h\<close> (in particular every body with
  the same canonical text) succeeds and returns \<open>h\<close>, every call with a body of another
  fingerprint fails with the integrity violation, and the registry is left as it was in
  both cases, however many calls are made and in whatever order; a call with any other
  key leaves the pin unchanged too.
\<close>

theorem enforceIntegrity_pins_fingerprint:
  "(hashes key = None \<longrightarrow>
      enforceIntegrity pf key body hashes =
        (Inr (sha256 pf (case body of None \<Rightarrow> [] | Some b \<Rightarrow> JSON_stringify pf b)),
         hashes(key \<mapsto> computePayloadHash pf body))
      \<and> snd (enforceIntegrity pf key body hashes) key = Some (computePayloadHash pf body))
   \<and> (hashes key = Some h \<longrightarrow>
        (computePayloadHash pf body = h \<longrightarrow> enforceIntegrity pf key body hashes = (Inr h, hashes))
      \<and> (computePayloadHash pf body \<noteq> h \<longrightarrow>
           enforceIntegrity pf key body hashes =
             (Inl (IntegrityViolationError (integrity_violation_message key)), hashes))
      \<and> enforce_seq pf key bodies hashes =
           (map (\<lambda>b. if computePayloadHash pf b = h then Inr h
                      else Inl (IntegrityViolationError (integrity_violation_message key))) bodies,
            hashes)
      \<and> snd (enforceIntegrity pf key' body hashes) key = Some h)"
proof (intro conjI impI)
  assume fresh: "hashes key = None"
  from enforceIntegrity_fresh [where hashes = hashes and key = key and pf = pf and body = body, OF fresh]
  show "enforceIntegrity pf key body hashes =
        (Inr (sha256 pf (case body of None \<Rightarrow> [] | Some b \<Rightarrow> JSON_stringify pf b)),
         hashes(key \<mapsto> computePayloadHash pf body))"
    by (simp add: computePayloadHash_def Let_def)
  from enforceIntegrity_fresh [where hashes = hashes and key = key and pf = pf and body = body, OF fresh]
  show "snd (enforceIntegrity pf key body hashes) key = Some (computePayloadHash pf body)"
    by simp
next
  assume pin: "hashes key = Some h"
  {
    assume "computePayloadHash pf body = h"
    then show "enforceIntegrity pf key body hashes = (Inr h, hashes)"
      by (simp add: enforceIntegrity_pinned [where hashes = hashes and key = key, OF pin])
  }
  {
    assume "computePayloadHash pf body \<noteq> h"
    then show "enforceIntegrity pf key body hashes =
             (Inl (IntegrityViolationError (integrity_violation_message key)), hashes)"
      by (simp add: enforceIntegrity_pinned [where hashes = hashes and key = key, OF pin])
  }
  show "enforce_seq pf key bodies hashes =
           (map (\<lambda>b. if computePayloadHash pf b = h then Inr h
                      else Inl (IntegrityViolationError (integrity_violation_message key))) bodies,
            hashes)"
    by (rule enforce_seq_pinned [where hashes = hashes and key = key, OF pin])
  show "snd (enforceIntegrity pf key' body hashes) key = Some h"
    by (rule enforceIntegrity_keeps_pin [where hashes = hashes and key = key, OF pin])
qed

theorem enforceIntegrity_pins_fingerprint_witness:
  "fst (enforceIntegrity \<lparr>sha256 = rev, JSON_stringify = id\<rparr> ''k1'' (Some ''{a:1}'') Map.empty)
     = Inr ''}1:a{''
   \<and> enforce_seq \<lparr>sha256 = rev, JSON_stringify = id\<rparr> ''k1''
        [Some ''{a:1}'', Some ''{a:2}'', Some ''{a:1}''] [''k1'' \<mapsto> ''}1:a{'']
     = ([Inr ''}1:a{'', Inl (IntegrityViolationError (integrity_violation_message ''k1'')),
         Inr ''}1:a{''], [''k1'' \<mapsto> ''}1:a{''])"
  using enforceIntegrity_pins_fingerprint
          [where hashes = Map.empty and key = "''k1''"
             and pf = "\<lparr>sha256 = rev, JSON_stringify = id\<rparr>" and body = "Some ''{a:1}''"]
        enforceIntegrity_pins_fingerprint
          [where hashes = "[''k1'' \<mapsto> ''}1:a{'']" and key = "''k1''" and h = "''}1:a{''"
             and pf = "\<lparr>sha256 = rev, JSON_stringify = id\<rparr>" and body = "Some ''{a:1}''"
             and bodies = "[Some ''{a:1}'', Some ''{a:2}'', Some ''{a:1}'']" and key' = "''k1''"]
  by (simp add: computePayloadHash_def enforceIntegrity_def Let_def)

section \<open>Event logs: properties\<close>

lemma hooks_called_append [simp]: "hooks_called (xs @ ys) = hooks_called xs @ hooks_called ys"
  by (induction xs rule: hooks_called.induct) simp_all

lemma states_entered_append [simp]:
  "states_entered (xs @ ys) = states_entered xs @ states_entered ys"
  by (induction xs rule: states_entered.induct) simp_all

lemma fetch_count_append [simp]: "fetch_count (xs @ ys) = fetch_count xs + fetch_count ys"
  by (induction xs rule: fetch_count.induct) simp_all

lemma closing_hooks_of_append [simp]:
  "closing_hooks_of (xs @ ys) = closing_hooks_of xs @ closing_hooks_of ys"
  by (simp add: closing_hooks_of_def)

lemma outcome_hooks_of_append [simp]:
  "outcome_hooks_of (xs @ ys) = outcome_hooks_of xs @ outcome_hooks_of ys"
  by (simp add: outcome_hooks_of_def)

lemma terminal_states_of_append [simp]:
  "terminal_states_of (xs @ ys) = terminal_states_of xs @ terminal_states_of ys"
  by (simp add: terminal_states_of_def)

lemma closing_hooks_of_Cons [simp]:
  "closing_hooks_of (HookCalled n c a # es) =
     (if n = OnAfterResponse \<or> n = OnError \<or> n = OnCancel \<or> n = OnCircuitOpen then [n] else [])
       @ closing_hooks_of es"
  "closing_hooks_of (FetchCalled u i # es) = closing_hooks_of es"
  "closing_hooks_of (Slept d # es) = closing_hooks_of es"
  "closing_hooks_of (Transitioned s # es) = closing_hooks_of es"
  "closing_hooks_of [] = []"
  by (simp_all add: closing_hooks_of_def)

lemma terminal_states_of_Cons [simp]:
  "terminal_states_of (HookCalled n c a # es) = terminal_states_of es"
  "terminal_states_of (FetchCalled u i # es) = terminal_states_of es"
  "terminal_states_of (Slept d # es) = terminal_states_of es"
  "terminal_states_of (Transitioned s # es) =
     (if s = SUCCESS \<or> s = ERROR \<or> s = CANCELLED then [s] else []) @ terminal_states_of es"
  "terminal_states_of [] = []"
  by (auto simp add: terminal_states_of_def isTerminal_def)


section \<open>Steps of a request: properties\<close>

lemma machine_transition_from_PENDING:
  assumes "machine st = PENDING" and "next = SUCCESS \<or> next = ERROR \<or> next = RETRYING \<or> next = CANCELLED"
  shows "machine_transition next st =
           (Inr (), st\<lparr>machine := next, events := events st @ [Transitioned next]\<rparr>)"
  using assms by (auto simp add: machine_transition_def transition_def)

lemma machine_transition_RETRYING_PENDING:
  assumes "machine st = RETRYING"
  shows "machine_transition PENDING st =
           (Inr (), st\<lparr>machine := PENDING, events := events st @ [Transitioned PENDING]\<rparr>)"
  using assms by (simp add: machine_transition_def transition_def)

lemma runHook_fields [simp]:
  "machine (runHook hk n c a st) = machine st"
  "metrics (runHook hk n c a st) = metrics st"
  "circuitBreaker (runHook hk n c a st) = circuitBreaker st"
  "inFlight (runHook hk n c a st) = inFlight st"
  "lastError (runHook hk n c a st) = lastError st"
  "idempotencyKeyHashes (runHook hk n c a st) = idempotencyKeyHashes st"
  "dedupeMap (runHook hk n c a st) = dedupeMap st"
  by (simp_all add: runHook_def)

lemma runHook_events:
  "events (runHook hk n c a st) = events st @ (if hk n then [HookCalled n c a] else [])"
  by (simp add: runHook_def)

lemma runHook_logs [simp]:
  "terminal_states_of (events (runHook hk n c a st)) = terminal_states_of (events st)"
  "closing_hooks_of (events (runHook hk n c a st)) =
     closing_hooks_of (events st)
       @ (if n = OnAfterResponse \<or> n = OnError \<or> n = OnCancel \<or> n = OnCircuitOpen
          then filter hk [n] else [])"
  "fetch_count (events (runHook hk n c a st)) = fetch_count (events st)"
  by (simp_all add: runHook_events)

text \<open>The retry steps, started in \<open>PENDING\<close>, end in \<open>PENDING\<close> with \<^verbatim>\<open>continue\<close>.\<close>

lemma retry_then_continue_PENDING:
  assumes "machine st = PENDING"
  obtains st' where "retry_then_continue rc hk ctx attempt err rnd st = (Inr (Continue :: 'd step), st')"
    and "machine st' = PENDING"
    and "metrics st' = metrics st" and "circuitBreaker st' = circuitBreaker st"
    and "inFlight st' = inFlight st" and "lastError st' = lastError st"
    and "idempotencyKeyHashes st' = idempotencyKeyHashes st"
    and "terminal_states_of (events st') = terminal_states_of (events st)"
    and "closing_hooks_of (events st') = closing_hooks_of (events st)"
    and "fetch_count (events st') = fetch_count (events st)"
proof -
  let ?st1 = "st\<lparr>machine := RETRYING, events := events st @ [Transitioned RETRYING]\<rparr>"
  let ?st2 = "runHook hk OnRetry ctx (Some err) ?st1"
  let ?st3 = "?st2\<lparr>events := events ?st2 @ [Slept (backoff rc attempt rnd)]\<rparr>"
  let ?st4 = "?st3\<lparr>machine := PENDING, events := events ?st3 @ [Transitioned PENDING]\<rparr>"
  have t1: "machine_transition RETRYING st = (Inr (), ?st1)"
    using assms by (simp add: machine_transition_from_PENDING)
  have t2: "machine_transition PENDING ?st3 = (Inr (), ?st4)"
    by (rule machine_transition_RETRYING_PENDING) simp
  have "retry_then_continue rc hk ctx attempt err rnd st = (Inr (Continue :: 'd step), ?st4)"
    unfolding retry_then_continue_def t1 by (simp add: Let_def t2)
  then show thesis
    by (rule that) simp_all
qed

lemma quiet_update [simp]:
  "quiet (st\<lparr>inFlight := i\<rparr>) = quiet st"
  "quiet (st\<lparr>circuitBreaker := b\<rparr>) = quiet st"
  "quiet (st\<lparr>metrics := m\<rparr>) = quiet st"
  "quiet (st\<lparr>lastError := l\<rparr>) = quiet st"
  "quiet (st\<lparr>idempotencyKeyHashes := h\<rparr>) = quiet st"
  by (simp_all add: quiet_def)

lemma closed_with_update [simp]:
  "closed_with s hs (st\<lparr>inFlight := i\<rparr>) = closed_with s hs st"
  "closed_with s hs (st\<lparr>circuitBreaker := b\<rparr>) = closed_with s hs st"
  "closed_with s hs (st\<lparr>metrics := m\<rparr>) = closed_with s hs st"
  "closed_with s hs (st\<lparr>lastError := l\<rparr>) = closed_with s hs st"
  "closed_with s hs (st\<lparr>idempotencyKeyHashes := h\<rparr>) = closed_with s hs st"
  by (simp_all add: closed_with_def)


















section \<open>Evaluating the engine on concrete inputs\<close>

lemmas engine_defs =
  run_started_def executeWithRetry_def attempt_loop.simps attempt_body_def
  attempt_prelude_def try_block_def catch_block_def retry_then_continue_def
  machine_transition_def transition_def runHook_def check_def withTimeout_def use_def
  new_StrontiumClient_def new_CircuitBreaker_def DEFAULT_CIRCUIT_BREAKER_CONFIG_def
  DEFAULT_RETRY_CONFIG_def spread_retry_config_def empty_retry_def
  MAX_CONCURRENT_REQUESTS_def spread_def shouldRetry_def recordFailure_def
  recordSuccess_def metrics_record_def maxSamples_def Let_def

lemmas example_defs =
  ex_platform_def ex_response_def ex_env_def ex_transport_ok_def ex_user_config_def
  ex_client_def ex_options_def ex_args_def ex_rejecting_schema_def ex_state_def
  ex_open_breaker_def ex_env_aborted_def ex_args_signal_def

section \<open>Claims about the request engine\<close>


text \<open>
  Two ways a call ends in \<open>ERROR\<close> with no closing hook at all, every hook being
  registered and one attempt configured: the attempt times out while the caller's signal
  is not aborted (lines 283-284), and the response is a 503 (lines 322-326). The
  statement below says nothing about calls that throw the timeout error without the
  caller's abort, a network error or the retry-exhausted error.
\<close>

lemma timeout_and_http_error_call_no_closing_hook:
  "fst (executeWithRetry ex_platform (ex_env NeverSettles)
          (config ex_client) (retryConfig ex_client) (hooks ex_client) ex_args
          (ex_state (new_CircuitBreaker None))) = Inl (TimeoutError 30000)
   \<and> machine (snd (executeWithRetry ex_platform (ex_env NeverSettles)
          (config ex_client) (retryConfig ex_client) (hooks ex_client) ex_args
          (ex_state (new_CircuitBreaker None)))) = ERROR
   \<and> hooks_called (events (snd (executeWithRetry ex_platform (ex_env NeverSettles)
          (config ex_client) (retryConfig ex_client) (hooks ex_client) ex_args
          (ex_state (new_CircuitBreaker None))))) = [OnBeforeRequest]
   \<and> fst (executeWithRetry ex_platform (ex_env (Settles 5 (Inr (ex_response False 503))))
          (config ex_client) (retryConfig ex_client) (hooks ex_client) ex_args
          (ex_state (new_CircuitBreaker None))) = Inl (NetworkError ''HTTP 503'')
   \<and> machine (snd (executeWithRetry ex_platform (ex_env (Settles 5 (Inr (ex_response False 503))))
          (config ex_client) (retryConfig ex_client) (hooks ex_client) ex_args
          (ex_state (new_CircuitBreaker None)))) = ERROR
   \<and> hooks_called (events (snd (executeWithRetry ex_platform (ex_env (Settles 5 (Inr (ex_response False 503))))
          (config ex_client) (retryConfig ex_client) (hooks ex_client) ex_args
          (ex_state (new_CircuitBreaker None))))) = [OnBeforeRequest]"
  by (simp add: engine_defs example_defs number_to_string_def decimal.simps)



section \<open>One attempt: properties\<close>

lemma check_failures: "failures (snd (check now b)) = failures b"
  by (simp add: check_def split: sum.splits)

lemma attempt_prelude_success:
  assumes "attempt_prelude pf env cfg hk args ctx st = (Inr hdrs, stp)"
  shows "machine stp = machine st" and "metrics stp = metrics st"
    and "inFlight stp = inFlight st" and "lastError stp = lastError st"
    and "circuitBreaker stp = snd (check (now_check env) (circuitBreaker st))"
    and "events stp = events st @ (if hk OnBeforeRequest then [HookCalled OnBeforeRequest ctx None] else [])"
  using assms
  by (auto simp add: attempt_prelude_def Let_def machine_transition_def runHook_events
      split: if_splits prod.splits sum.splits)

lemma attempt_prelude_metrics:
  "metrics (snd (attempt_prelude pf env cfg hk args ctx st)) = metrics st"
  by (auto simp add: attempt_prelude_def Let_def machine_transition_def
      split: if_splits prod.splits sum.splits)

text \<open>An iteration whose transport call gives an ok response that the validator rejects.\<close>

lemma attempt_body_validation_failure:
  fixes env :: "'d attempt_env"
  assumes pend: "machine st = PENDING"
    and pre: "attempt_prelude pf env cfg hk args (hook_context args attempt) st = (Inr hdrs, stp)"
    and resp: "transport_call pf env args hdrs = Inr response"
    and ok: "resp_ok response"
    and dec: "decoded_body response = Inr decoded"
    and strict: "mode cfg = Strict" and schema: "a_schema args = Some parse"
    and fails: "parse decoded = Inl inner"
  shows "attempt_body pf env cfg rc hk args attempt st =
           (Inl (ResponseValidationError ''Response validation failed'' inner),
            runHook hk OnError (hook_context args attempt)
              (Some (ResponseValidationError ''Response validation failed'' inner))
              (stp\<lparr>machine := ERROR,
                   events := events stp @ [FetchCalled (a_url args) (fetch_init_of pf args hdrs),
                                           Transitioned ERROR]\<rparr>))"
proof -
  have m1: "machine stp = PENDING"
    using attempt_prelude_success(1) [OF pre] pend by simp
  show ?thesis
    using resp ok dec strict schema fails
    by (simp add: attempt_body_def pre try_block_def Let_def machine_transition_def
        transition_def m1 catch_block_def split del: if_split)
qed

section \<open>Claims about validation, metrics and the transport\<close>

text \<open>
  C6 as stated fails in two ways. A 304 response is a 3xx response, but its \<^verbatim>\<open>ok\<close> flag
  is false, and the engine branches on the flag: in strict mode with a validator that
  rejects every body, the request never decodes or validates, calls \<^verbatim>\<open>recordFailure\<close>
  (the failure count becomes 1) and throws the network error \<open>HTTP 304\<close>, with no
  \<^verbatim>\<open>onError\<close>. And a request that finds a pending promise under its dedup key returns
  that promise: its own validator is never called.
\<close>

theorem validation_skipped_on_3xx_and_on_dedup_hit:
  "fetch_ok (ex_response False 304)
   \<and> mode (config ex_client) = Strict
   \<and> fst (executeWithRetry ex_platform (ex_env (Settles 5 (Inr (ex_response False 304))))
          (config ex_client) (retryConfig ex_client) (hooks ex_client)
          (ex_args\<lparr>a_schema := Some ex_rejecting_schema\<rparr>)
          (ex_state (new_CircuitBreaker None))) = Inl (NetworkError ''HTTP 304'')
   \<and> failures (circuitBreaker (snd (executeWithRetry ex_platform
          (ex_env (Settles 5 (Inr (ex_response False 304))))
          (config ex_client) (retryConfig ex_client) (hooks ex_client)
          (ex_args\<lparr>a_schema := Some ex_rejecting_schema\<rparr>)
          (ex_state (new_CircuitBreaker None))))) = 1
   \<and> hooks_called (events (snd (executeWithRetry ex_platform
          (ex_env (Settles 5 (Inr (ex_response False 304))))
          (config ex_client) (retryConfig ex_client) (hooks ex_client)
          (ex_args\<lparr>a_schema := Some ex_rejecting_schema\<rparr>)
          (ex_state (new_CircuitBreaker None))))) = [OnBeforeRequest]
   \<and> request ex_platform \<lparr>generateRequestId = ''req_2'', new_promise = 8\<rparr>
        (ex_options\<lparr>o_schema := Some ex_rejecting_schema\<rparr>)
        (ex_client\<lparr>dedupeMap := [(''GET:https://api.example.com/users/1:'', 7)]\<rparr>)
     = (ReturnedExisting 7,
        ex_client\<lparr>dedupeMap := [(''GET:https://api.example.com/users/1:'', 7)]\<rparr>)"
  by (simp add: fetch_ok_def request_def computeDedupeKey_def computePayloadHash_def
      dedupe_get_def number_to_string_def decimal.simps engine_defs example_defs)

text \<open>
  C6, amended. For every execution of a request (one that runs its own attempt loop, not
  one that joins a pending promise of the dedup map) in strict client mode: when the loop
  runs an attempt (from \<open>PENDING\<close>, reaching the transport call) whose response has a
  status from 200 to 299, so that its \<^verbatim>\<open>ok\<close> flag is set, and whose decoded body the
  validator rejects with \<open>inner\<close>, the loop throws \<open>ResponseValidationError\<close> carrying
  \<open>inner\<close>; the state machine is in \<open>ERROR\<close>; the effects after those of the prelude are
  exactly the one \<^verbatim>\<open>fetch\<close> call, the transition to \<open>ERROR\<close> and the \<^verbatim>\<open>onError\<close> hook with
  that error (if registered), so there is no retry, no backoff and no further transport
  call; and the breaker is the one \<^verbatim>\<open>check()\<close> left, with its failure count unchanged:
  neither \<^verbatim>\<open>recordFailure\<close> nor \<^verbatim>\<open>recordSuccess\<close> is called. The metrics buffer is
  unchanged too.
\<close>

theorem strict_validation_failure_throws_without_retry:
  fixes env :: "int \<Rightarrow> 'd attempt_env"
  assumes run: "attempt \<le> maxAttempts rc"
    and pend: "machine st = PENDING"
    and pre: "attempt_prelude pf (env attempt) cfg hk args (hook_context args attempt) st
                = (Inr hdrs, stp)"
    and resp: "transport_call pf (env attempt) args hdrs = Inr response"
    and wf: "fetch_ok response"
    and status: "200 \<le> resp_status response" "resp_status response \<le> 299"
    and dec: "decoded_body response = Inr decoded"
    and strict: "mode cfg = Strict" and schema: "a_schema args = Some parse"
    and fails: "parse decoded = Inl inner"
  shows "case attempt_loop pf env cfg rc hk args attempt st of
           (r, st') \<Rightarrow>
             r = Inl (ResponseValidationError ''Response validation failed'' inner)
             \<and> machine st' = ERROR
             \<and> events st' =
                 events stp
                   @ [FetchCalled (a_url args) (fetch_init_of pf args hdrs), Transitioned ERROR]
                   @ (if hk OnError
                      then [HookCalled OnError (hook_context args attempt)
                              (Some (ResponseValidationError ''Response validation failed'' inner))]
                      else [])
             \<and> fetch_count (events st') = fetch_count (events st) + 1
             \<and> circuitBreaker st' = snd (check (now_check (env attempt)) (circuitBreaker st))
             \<and> failures (circuitBreaker st') = failures (circuitBreaker st)
             \<and> metrics st' = metrics st"
proof -
  have ok: "resp_ok response"
    using wf status by (simp add: fetch_ok_def)
  note body = attempt_body_validation_failure [OF pend pre resp ok dec strict schema fails, of rc]
  have loop: "attempt_loop pf env cfg rc hk args attempt st =
      (Inl (ResponseValidationError ''Response validation failed'' inner),
       runHook hk OnError (hook_context args attempt)
         (Some (ResponseValidationError ''Response validation failed'' inner))
         (stp\<lparr>machine := ERROR,
              events := events stp @ [FetchCalled (a_url args) (fetch_init_of pf args hdrs),
                                      Transitioned ERROR]\<rparr>))"
    using run by (simp add: attempt_loop.simps [of pf env cfg rc hk args attempt st] body)
  show ?thesis
    unfolding loop
    using attempt_prelude_success [OF pre]
    by (simp add: runHook_events check_failures)
qed

theorem strict_validation_failure_throws_without_retry_witness:
  "attempt_loop ex_platform (ex_env (Settles 5 (Inr (ex_response True 200))))
      (config ex_client) (retryConfig ex_client) (hooks ex_client)
      (ex_args\<lparr>a_schema := Some ex_rejecting_schema\<rparr>) 1
      ((ex_state (new_CircuitBreaker None))\<lparr>machine := PENDING\<rparr>)
   = (Inl (ResponseValidationError ''Response validation failed'' (OtherError ''missing id'')),
      (ex_state (new_CircuitBreaker None))
        \<lparr>machine := ERROR,
         events :=
           [HookCalled OnBeforeRequest (hook_context ex_args 1) None,
            FetchCalled ''https://api.example.com/users/1''
              \<lparr>fi_method = ''GET'',
               fi_headers = [(''Content-Type'', ''application/json''), (''X-Request-Id'', ''req_1'')],
               fi_body = None\<rparr>,
            Transitioned ERROR,
            HookCalled OnError (hook_context ex_args 1)
              (Some (ResponseValidationError ''Response validation failed''
                       (OtherError ''missing id'')))]\<rparr>)"
  using strict_validation_failure_throws_without_retry
    [where attempt = 1 and rc = "retryConfig ex_client" and cfg = "config ex_client"
       and hk = "hooks ex_client" and pf = ex_platform
       and env = "ex_env (Settles 5 (Inr (ex_response True 200)))"
       and args = "ex_args\<lparr>a_schema := Some ex_rejecting_schema\<rparr>"
       and st = "(ex_state (new_CircuitBreaker None))\<lparr>machine := PENDING\<rparr>"
       and hdrs = "[(''Content-Type'', ''application/json''), (''X-Request-Id'', ''req_1'')]"
       and stp = "(ex_state (new_CircuitBreaker None))
                    \<lparr>machine := PENDING,
                     events := [HookCalled OnBeforeRequest (hook_context ex_args 1) None]\<rparr>"
       and response = "ex_response True 200" and decoded = "''{}''"
       and parse = ex_rejecting_schema and inner = "OtherError ''missing id''"]
  by (simp add: fetch_ok_def engine_defs example_defs)

text \<open>An iteration whose transport call gives a response that is not ok.\<close>

lemma attempt_body_non_ok:
  fixes env :: "'d attempt_env"
  assumes pend: "machine st = PENDING"
    and pre: "attempt_prelude pf env cfg hk args (hook_context args attempt) st = (Inr hdrs, stp)"
    and resp: "transport_call pf env args hdrs = Inr response"
    and nok: "\<not> resp_ok response"
  shows "\<exists>s st'. attempt_body pf env cfg rc hk args attempt st = (Inr s, st')
           \<and> (s = Continue \<or> s = Break) \<and> metrics st' = metrics st"
proof -
  have m1: "machine stp = PENDING" and x1: "metrics stp = metrics st"
    using attempt_prelude_success(1,2) [OF pre] pend by simp_all
  let ?err = "NetworkError (''HTTP '' @ number_to_string (resp_status response))"
  let ?st3 = "stp\<lparr>events := events stp @ [FetchCalled (a_url args) (fetch_init_of pf args hdrs)],
                  circuitBreaker := recordFailure (now_failure env) (circuitBreaker stp),
                  lastError := Some ?err\<rparr>"
  show ?thesis
  proof (cases "shouldRetry rc (Some (resp_status response)) attempt \<and> attempt < maxAttempts rc")
    case True
    have "machine ?st3 = PENDING" using m1 by simp
    then obtain st4 where r: "retry_then_continue rc hk (hook_context args attempt) attempt ?err
          (Math_random env) ?st3 = (Inr (Continue :: 'd step), st4)"
      and x4: "metrics st4 = metrics ?st3"
      by (rule retry_then_continue_PENDING)
    have "attempt_body pf env cfg rc hk args attempt st = (Inr Continue, st4)"
      using resp nok r True
      by (simp add: attempt_body_def pre try_block_def Let_def split del: if_split)
    then show ?thesis
      using x4 x1 by simp
  next
    case False
    have "attempt_body pf env cfg rc hk args attempt st = (Inr Break, ?st3)"
      using resp nok
      by (simp add: attempt_body_def pre try_block_def Let_def False split del: if_split)
    then show ?thesis
      using x1 by simp
  qed
qed

text \<open>
  An iteration whose ok response is decoded either returns or leaves the metrics as they
  were (the validator rejected the body).
\<close>

lemma attempt_body_ok_decoded:
  fixes env :: "'d attempt_env"
  assumes pend: "machine st = PENDING"
    and pre: "attempt_prelude pf env cfg hk args (hook_context args attempt) st = (Inr hdrs, stp)"
    and resp: "transport_call pf env args hdrs = Inr response"
    and ok: "resp_ok response"
    and dec: "decoded_body response = Inr decoded"
  shows "(\<exists>r st'. attempt_body pf env cfg rc hk args attempt st = (Inr (Return r), st'))
         \<or> metrics (snd (attempt_body pf env cfg rc hk args attempt st)) = metrics st"
proof -
  have m1: "machine stp = PENDING" and x1: "metrics stp = metrics st"
    using attempt_prelude_success(1,2) [OF pre] pend by simp_all
  show ?thesis
    using resp ok dec x1
    by (auto simp add: attempt_body_def pre try_block_def Let_def machine_transition_def
        transition_def m1 catch_block_def split: option.splits sum.splits if_splits)
qed

text \<open>
  C9. For every attempt (entered in \<open>PENDING\<close>) whose transport call resolves with a
  response that is not ok, the iteration continues or breaks and leaves the metrics
  buffer as it was, so \<^verbatim>\<open>averageLatency\<close> and \<^verbatim>\<open>recentFailures\<close> read the same. An attempt
  that changes the buffer reached the transport call, and that call threw (timeout or
  exception) or gave an ok response, which then was returned (success) or could not be
  decoded (an exception of the response's \<^verbatim>\<open>json()\<close> or \<^verbatim>\<open>text()\<close>).
\<close>

theorem non_ok_response_records_no_sample:
  fixes env :: "'d attempt_env"
  assumes pend: "machine st = PENDING"
  shows "(attempt_prelude pf env cfg hk args (hook_context args attempt) st = (Inr hdrs, stp)
            \<and> transport_call pf env args hdrs = Inr response \<and> \<not> resp_ok response
          \<longrightarrow> metrics (snd (attempt_body pf env cfg rc hk args attempt st)) = metrics st
              \<and> averageLatency (metrics (snd (attempt_body pf env cfg rc hk args attempt st)))
                  = averageLatency (metrics st)
              \<and> recentFailures now0 nowAt w (metrics (snd (attempt_body pf env cfg rc hk args attempt st)))
                  = recentFailures now0 nowAt w (metrics st)
              \<and> (fst (attempt_body pf env cfg rc hk args attempt st) = Inr Continue
                   \<or> fst (attempt_body pf env cfg rc hk args attempt st) = Inr Break))
       \<and> (metrics (snd (attempt_body pf env cfg rc hk args attempt st)) \<noteq> metrics st
          \<longrightarrow> (\<exists>hs s1. attempt_prelude pf env cfg hk args (hook_context args attempt) st = (Inr hs, s1)
                 \<and> (case transport_call pf env args hs of
                       Inl e \<Rightarrow> True
                     | Inr rsp \<Rightarrow>
                         resp_ok rsp
                         \<and> ((\<exists>r. fst (attempt_body pf env cfg rc hk args attempt st) = Inr (Return r))
                              \<or> (\<exists>e. decoded_body rsp = Inl e)))))"
proof (intro conjI impI)
  assume h: "attempt_prelude pf env cfg hk args (hook_context args attempt) st = (Inr hdrs, stp)
            \<and> transport_call pf env args hdrs = Inr response \<and> \<not> resp_ok response"
  then obtain s st' where b: "attempt_body pf env cfg rc hk args attempt st = (Inr s, st')"
    and s: "s = Continue \<or> s = Break" and x: "metrics st' = metrics st"
    using attempt_body_non_ok [OF pend, where pf = pf and env = env and cfg = cfg and hk = hk
        and args = args and attempt = attempt and hdrs = hdrs and stp = stp
        and response = response and rc = rc]
    by blast
  show "metrics (snd (attempt_body pf env cfg rc hk args attempt st)) = metrics st"
    and "averageLatency (metrics (snd (attempt_body pf env cfg rc hk args attempt st)))
                  = averageLatency (metrics st)"
    and "recentFailures now0 nowAt w (metrics (snd (attempt_body pf env cfg rc hk args attempt st)))
                  = recentFailures now0 nowAt w (metrics st)"
    and "fst (attempt_body pf env cfg rc hk args attempt st) = Inr Continue
                   \<or> fst (attempt_body pf env cfg rc hk args attempt st) = Inr Break"
    using b s x by simp_all
next
  assume changed: "metrics (snd (attempt_body pf env cfg rc hk args attempt st)) \<noteq> metrics st"
  obtain p s1 where pre: "attempt_prelude pf env cfg hk args (hook_context args attempt) st = (p, s1)"
    by (cases "attempt_prelude pf env cfg hk args (hook_context args attempt) st")
  show "\<exists>hs s1. attempt_prelude pf env cfg hk args (hook_context args attempt) st = (Inr hs, s1)
                 \<and> (case transport_call pf env args hs of
                       Inl e \<Rightarrow> True
                     | Inr rsp \<Rightarrow>
                         resp_ok rsp
                         \<and> ((\<exists>r. fst (attempt_body pf env cfg rc hk args attempt st) = Inr (Return r))
                              \<or> (\<exists>e. decoded_body rsp = Inl e)))"
  proof (cases p)
    case (Inl e)
    then have "attempt_body pf env cfg rc hk args attempt st = (Inl e, s1)"
      using pre by (simp add: attempt_body_def)
    moreover have "metrics s1 = metrics st"
      using attempt_prelude_metrics [of pf env cfg hk args "hook_context args attempt" st] pre
      by simp
    ultimately show ?thesis using changed by simp
  next
    case (Inr hs)
    note pre' = pre [unfolded Inr]
    show ?thesis
    proof (cases "transport_call pf env args hs")
      case (Inl e)
      then show ?thesis using pre' by auto
    next
      case resp: (Inr rsp)
      have ok: "resp_ok rsp"
      proof (rule ccontr)
        assume "\<not> resp_ok rsp"
        from attempt_body_non_ok [OF pend pre' resp this, of rc]
        show False using changed by auto
      qed
      have "(\<exists>r. fst (attempt_body pf env cfg rc hk args attempt st) = Inr (Return r))
              \<or> (\<exists>e. decoded_body rsp = Inl e)"
      proof (cases "decoded_body rsp")
        case (Inl e)
        then show ?thesis by blast
      next
        case (Inr decoded)
        from attempt_body_ok_decoded [OF pend pre' resp ok Inr, of rc]
        show ?thesis using changed by auto
      qed
      then show ?thesis
        using pre' resp ok by auto
    qed
  qed
qed

theorem non_ok_response_records_no_sample_witness:
  "attempt_body ex_platform (ex_env (Settles 5 (Inr (ex_response False 500))) 1)
      (config ex_client) (retryConfig ex_client) (hooks ex_client) ex_args 1
      ((ex_state (new_CircuitBreaker None))\<lparr>machine := PENDING\<rparr>)
    = (Inr Break,
       (ex_state (new_CircuitBreaker None))
         \<lparr>machine := PENDING,
          circuitBreaker := (new_CircuitBreaker None)\<lparr>failures := 1\<rparr>,
          lastError := Some (NetworkError (''HTTP '' @ number_to_string 500)),
          events :=
            [HookCalled OnBeforeRequest (hook_context ex_args 1) None,
             FetchCalled ''https://api.example.com/users/1''
               \<lparr>fi_method = ''GET'',
                fi_headers = [(''Content-Type'', ''application/json''), (''X-Request-Id'', ''req_1'')],
                fi_body = None\<rparr>]\<rparr>)
   \<and> metrics (snd (attempt_body ex_platform (ex_env (Settles 5 (Inr (ex_response False 500))) 1)
      (config ex_client) (retryConfig ex_client) (hooks ex_client) ex_args 1
      ((ex_state (new_CircuitBreaker None))\<lparr>machine := PENDING\<rparr>))) = []
   \<and> metrics (snd (attempt_body ex_platform (ex_env (Settles 5 (Inr (ex_response True 200))) 1)
      (config ex_client) (retryConfig ex_client) (hooks ex_client) ex_args 1
      ((ex_state (new_CircuitBreaker None))\<lparr>machine := PENDING\<rparr>))) \<noteq> []"
  using non_ok_response_records_no_sample
    [where st = "(ex_state (new_CircuitBreaker None))\<lparr>machine := PENDING\<rparr>"
       and pf = ex_platform and env = "ex_env (Settles 5 (Inr (ex_response False 500))) 1"
       and cfg = "config ex_client" and rc = "retryConfig ex_client" and hk = "hooks ex_client"
       and args = ex_args and attempt = 1
       and hdrs = "[(''Content-Type'', ''application/json''), (''X-Request-Id'', ''req_1'')]"
       and stp = "(ex_state (new_CircuitBreaker None))
                    \<lparr>machine := PENDING,
                     events := [HookCalled OnBeforeRequest (hook_context ex_args 1) None]\<rparr>"
       and response = "ex_response False 500"]
    non_ok_response_records_no_sample
    [where st = "(ex_state (new_CircuitBreaker None))\<lparr>machine := PENDING\<rparr>"
       and pf = ex_platform and env = "ex_env (Settles 5 (Inr (ex_response True 200))) 1"
       and cfg = "config ex_client" and rc = "retryConfig ex_client" and hk = "hooks ex_client"
       and args = ex_args and attempt = 1]
  by (simp add: engine_defs example_defs)

section \<open>The configured transport: properties\<close>

lemma attempt_body_ignores_transport:
  "attempt_body pf env (cfg\<lparr>transport := t\<rparr>) rc hk args attempt st
     = attempt_body pf env cfg rc hk args attempt st"
  by (simp add: attempt_body_def attempt_prelude_def try_block_def
      cong: if_cong sum.case_cong prod.case_cong option.case_cong)

lemma attempt_loop_ignores_transport:
  "attempt_loop pf env (cfg\<lparr>transport := t\<rparr>) rc hk args attempt st
     = attempt_loop pf env cfg rc hk args attempt st"
proof (induction pf env cfg rc hk args attempt st rule: attempt_loop.induct)
  case (1 pf env cfg rc hk args attempt st)
  show ?case
  proof (cases "attempt \<le> maxAttempts rc")
    case False
    then show ?thesis
      by (simp add: attempt_loop.simps [of pf env "cfg\<lparr>transport := t\<rparr>" rc hk args attempt st]
          attempt_loop.simps [of pf env cfg rc hk args attempt st])
  next
    case True
    obtain r st1 where b: "attempt_body pf (env attempt) cfg rc hk args attempt st = (r, st1)"
      by (cases "attempt_body pf (env attempt) cfg rc hk args attempt st")
    show ?thesis
    proof (cases "r = Inr Continue")
      case False
      then show ?thesis
        using True b
        by (simp add: attempt_loop.simps [of pf env "cfg\<lparr>transport := t\<rparr>" rc hk args attempt st]
            attempt_loop.simps [of pf env cfg rc hk args attempt st]
            attempt_body_ignores_transport split: sum.splits step.splits)
    next
      case c: True
      from "1.IH" [OF True b [symmetric] c [THEN sym, THEN sym]]
      show ?thesis
        using True b c
        by (simp add: attempt_loop.simps [of pf env "cfg\<lparr>transport := t\<rparr>" rc hk args attempt st]
            attempt_loop.simps [of pf env cfg rc hk args attempt st]
            attempt_body_ignores_transport)
    qed
  qed
qed

lemma executeWithRetry_ignores_transport:
  "executeWithRetry pf env (cfg\<lparr>transport := t\<rparr>) rc hk args st
     = executeWithRetry pf env cfg rc hk args st"
  unfolding executeWithRetry_def attempt_loop_ignores_transport by (rule refl)

section \<open>Claims about the transport and about deduplication\<close>

text \<open>
  C1 (the code departs from the claim). The constructor stores the transport of the
  client configuration, but \<^verbatim>\<open>_executeWithRetry\<close> calls the global \<^verbatim>\<open>fetch\<close> under
  \<^verbatim>\<open>withTimeout\<close>: replacing \<^verbatim>\<open>config.transport\<close> by any other handle changes nothing in
  any run. The example client is configured with a transport that answers 200 at once,
  in a world whose \<^verbatim>\<open>fetch\<close> rejects with a \<^verbatim>\<open>TypeError\<close>: the request makes one call
  of \<^verbatim>\<open>fetch\<close> and throws that \<^verbatim>\<open>TypeError\<close>, where the configured transport under the
  same timeout would have given the response.
\<close>

theorem configured_transport_is_never_called:
  "executeWithRetry pf env (cfg\<lparr>transport := t\<rparr>) rc hk args st
     = executeWithRetry pf env cfg rc hk args st
   \<and> transport (config ex_client) = CustomTransport ex_transport_ok
   \<and> withTimeout
        (ex_transport_ok (a_url ex_args)
           (fetch_init_of ex_platform ex_args
              [(''Content-Type'', ''application/json''), (''X-Request-Id'', ''req_1'')]))
        (a_timeoutMs ex_args) = Inr (ex_response True 200)
   \<and> fst (run_started ex_platform (ex_env (Settles 5 (Inl (TypeError ''fetch failed''))))
             ex_args Map.empty ex_client) = Inl (Thrown (TypeError ''fetch failed''))
   \<and> fetch_count (events (snd (run_started ex_platform
             (ex_env (Settles 5 (Inl (TypeError ''fetch failed''))))
             ex_args Map.empty ex_client))) = 1"
proof -
  have "transport (config ex_client) = CustomTransport ex_transport_ok"
    by (simp add: ex_client_def use_def new_StrontiumClient_def ex_user_config_def Let_def)
  moreover have "withTimeout
        (ex_transport_ok (a_url ex_args)
           (fetch_init_of ex_platform ex_args
              [(''Content-Type'', ''application/json''), (''X-Request-Id'', ''req_1'')]))
        (a_timeoutMs ex_args) = Inr (ex_response True 200)"
    by (simp add: withTimeout_def ex_transport_ok_def ex_args_def)
  moreover have "fst (run_started ex_platform (ex_env (Settles 5 (Inl (TypeError ''fetch failed''))))
             ex_args Map.empty ex_client) = Inl (Thrown (TypeError ''fetch failed''))"
    by (simp add: engine_defs example_defs)
  moreover have "fetch_count (events (snd (run_started ex_platform
             (ex_env (Settles 5 (Inl (TypeError ''fetch failed''))))
             ex_args Map.empty ex_client))) = 1"
    by (simp add: engine_defs example_defs)
  ultimately show ?thesis
    by (simp add: executeWithRetry_ignores_transport)
qed

section \<open>Deduplication: properties\<close>




end
